theory Spec2Isabelle
  imports Complex_Main
begin

section \<open>Data model\<close>

text \<open>
  A tensor as the inference layer sees it: a shape (one extent per axis, so the rank is
  the length of the shape) and its entries in row-major order. A rank-2 tensor of shape
  \<open>[n, d]\<close> is an \<open>n\<close> by \<open>d\<close> matrix; \<open>[0, 5]\<close> and \<open>[5, 0]\<close> are the two kinds of empty
  matrix the input validation tells apart.
\<close>

record tensor =
  shape :: "nat list"
  elems :: "real list"

definition ndim :: "tensor \<Rightarrow> nat" where
  "ndim t = length (shape t)"

text \<open>\<open>t.reshape(1,1)\<close> and \<open>t.reshape(-1,1)\<close>: the entries stay, the shape changes.\<close>

definition reshape_1_1 :: "tensor \<Rightarrow> tensor" where
  "reshape_1_1 t = t\<lparr>shape := [1, 1]\<rparr>"

definition reshape_m1_1 :: "tensor \<Rightarrow> tensor" where
  "reshape_m1_1 t = t\<lparr>shape := [length (elems t), 1]\<rparr>"

text \<open>A tensor is well formed when it has as many entries as its shape says.\<close>

definition tensor_ok :: "tensor \<Rightarrow> bool" where
  "tensor_ok t = (length (elems t) = prod_list (shape t))"

text \<open>Python's \<open>str\<close> of a non-negative integer.\<close>

definition digit_char :: "nat \<Rightarrow> char" where
  "digit_char d = char_of (48 + d)"

function str_nat :: "nat \<Rightarrow> string" where
  "str_nat n = (if n < 10 then [digit_char n] else str_nat (n div 10) @ [digit_char (n mod 10)])"
  by pat_completeness auto
termination
  by (relation "measure id") auto

declare str_nat.simps [simp del]

text \<open>
  The exceptions of the inference layer. \<open>CholeskyException\<close> carries its message, the
  matrix whose factorization failed and the model that asked for it.
\<close>

datatype 'm error =
    ValueError string
  | AttributeError string
  | NameError string
  | IndexError string
  | RuntimeError string
  | TypeError string
  | NotImplementedError
  | CholeskyException string "real list list" 'm

section \<open>Input validation: \<open>Model._check_input\<close>\<close>

text \<open>
  \<open>_check_input(X, y=None)\<close>. The argument \<open>X\<close> (and \<open>y\<close>) is the tensor that the
  conversion at the top of the function yields; \<open>input_dims\<close> is the attribute fixed at
  construction, read only on the prediction path. With \<open>y\<close> the function returns the
  pair, without it the coerced \<open>X\<close> alone.
\<close>

definition check_input :: "nat \<Rightarrow> tensor \<Rightarrow> tensor option \<Rightarrow> 'm error + tensor \<times> tensor option" where
  "check_input input_dims X0 y0 =
    (if 2 < ndim X0 then
       Inl (ValueError ''X must have dimensions (data_points,input_dims) with input_dims optional'')
     else
       let X = (if ndim X0 = 0 then reshape_1_1 X0
                else if ndim X0 = 1 then reshape_m1_1 X0 else X0)
       in if shape X ! 0 = 0 \<or> shape X ! 1 = 0 then Inl (ValueError ''X must not be empty'')
          else (case y0 of
             Some y1 \<Rightarrow>
               if ndim y1 \<noteq> 0 \<and> ndim y1 \<noteq> 1 \<and> (ndim y1 \<noteq> 2 \<or> shape y1 ! 1 \<noteq> 1) then
                 Inl (ValueError ''y must have one dimension (data_points,)'')
               else
                 let y = (if ndim y1 = 0 then reshape_1_1 y1
                          else if ndim y1 = 1 then reshape_m1_1 y1 else y1)
                 in if shape X ! 0 \<noteq> shape y ! 0 then
                      Inl (ValueError ''number of data points for X and y must match'')
                    else Inr (X, Some y)
           | None \<Rightarrow>
               if shape X ! 1 \<noteq> input_dims then
                 Inl (ValueError (''X must have '' @ str_nat input_dims @ '' input dimensions''))
               else Inr (X, None)))"

text \<open>The rank-2 view of an input after the promotion of rank 0 and rank 1.\<close>

definition promote :: "tensor \<Rightarrow> tensor" where
  "promote t = (if ndim t = 0 then reshape_1_1 t else if ndim t = 1 then reshape_m1_1 t else t)"

text \<open>What the validation asks of \<open>X\<close> alone, and of \<open>y\<close> alone.\<close>

definition x_accepted :: "tensor \<Rightarrow> bool" where
  "x_accepted X = (ndim X \<le> 2 \<and> shape (promote X) ! 0 \<noteq> 0 \<and> shape (promote X) ! 1 \<noteq> 0)"

definition y_accepted :: "tensor \<Rightarrow> bool" where
  "y_accepted y = (ndim y \<le> 2 \<and> (ndim y = 2 \<longrightarrow> shape y ! 1 = 1))"

section \<open>Attribute assignment: \<open>Model.__setattr__\<close>\<close>

text \<open>
  The values an attribute can hold. A \<open>Parameter\<close> is an object with an identity: it is
  named by its address in the store of Parameter objects. \<open>PModule name vals\<close> is an
  instance of a class that derives from \<open>Kernel\<close>, \<open>Mean\<close> or \<open>Likelihood\<close>, with its
  \<open>name\<close> attribute and the values of its \<open>__dict__\<close> in order; \<open>PObject\<close> is any other
  object.
\<close>

datatype pyval =
    PNone
  | PBool bool
  | PNum real
  | PStr string
  | PTensor tensor
  | PList "pyval list"
  | PParameter nat
  | PModule string "pyval list"
  | PObject string

text \<open>
  The instance dictionary of a model. The parameter registry is the attribute
  \<open>_params\<close>, a list of Parameter objects.
\<close>

type_synonym model_dict = "string \<rightharpoonup> pyval"

definition holds_parameter :: "model_dict \<Rightarrow> string \<Rightarrow> bool" where
  "holds_parameter self name = (case self name of Some (PParameter a) \<Rightarrow> True | _ \<Rightarrow> False)"

text \<open>
  \<open>__setattr__(self, name, val)\<close>: the outcome of the call and the instance after it.
\<close>

definition setattr_model :: "model_dict \<Rightarrow> string \<Rightarrow> pyval \<Rightarrow> (unit error + unit) \<times> model_dict" where
  "setattr_model self name val =
    (if holds_parameter self name then
       (Inl (AttributeError ''parameter is read-only, use Parameter.assign()''), self)
     else (Inr (), self(name \<mapsto> val)))"

text \<open>A caller that makes one assignment after another, going on after a failed one.\<close>

fun assign_all :: "model_dict \<Rightarrow> (string \<times> pyval) list \<Rightarrow> model_dict" where
  "assign_all self [] = self"
| "assign_all self ((name, val) # rest) = assign_all (snd (setattr_model self name val)) rest"

section \<open>Parameters and the registry\<close>

text \<open>
  Modelled from the spec: the class \<open>Parameter\<close> is not part of the sources at hand. Its
  attributes are those of the data model: the constrained value, the optional bounds,
  the trainability and pegging flags, the optional prior (given by its log-density at a
  value), the name that the registry assigns, and the count used for reporting.
\<close>

record parameter =
  pname :: "string option"
  pvalue :: tensor
  lower :: "tensor option"
  upper :: "tensor option"
  trainable :: bool
  pegged :: bool
  prior :: "(tensor \<Rightarrow> real) option"
  num_parameters :: nat

text \<open>
  Modelled from the spec: \<open>Parameter.log_prior()\<close>, the log-prior density of the
  Parameter at its value, zero if it has no prior.
\<close>

definition param_log_prior :: "parameter \<Rightarrow> real" where
  "param_log_prior p = (case prior p of None \<Rightarrow> 0 | Some d \<Rightarrow> d (pvalue p))"

text \<open>
  Modelled from the spec: the constructor \<open>Parameter(value, name, lower, trainable)\<close>
  with the defaults the calls in the models rely on (no name, no bounds, no prior,
  trainable); the reported count is the number of entries.
\<close>

definition Parameter :: "tensor \<Rightarrow> string option \<Rightarrow> tensor option \<Rightarrow> bool \<Rightarrow> parameter" where
  "Parameter v nm lo tr =
     \<lparr>pname = nm, pvalue = v, lower = lo, upper = None, trainable = tr, pegged = False,
      prior = None, num_parameters = length (elems v)\<rparr>"

text \<open>
  The store of Parameter objects: the object at address \<open>a\<close> is \<open>st ! a\<close>, and a new
  object takes the next address.
\<close>

type_synonym store = "parameter list"

definition alloc :: "parameter \<Rightarrow> store \<Rightarrow> nat \<times> store" where
  "alloc p st = (length st, st @ [p])"

text \<open>
  \<open>_register_parameters(obj, name=None)\<close>, on the store and the registry \<open>_params\<close> (a
  list of addresses, in the order of registration). The loops over a list and over the
  values of a \<open>__dict__\<close> are the two auxiliary functions.
\<close>

fun register_parameters :: "pyval \<Rightarrow> string option \<Rightarrow> store \<times> nat list \<Rightarrow> store \<times> nat list"
  and register_list :: "pyval list \<Rightarrow> nat \<Rightarrow> string option \<Rightarrow> store \<times> nat list \<Rightarrow> store \<times> nat list"
  and register_values :: "pyval list \<Rightarrow> string \<Rightarrow> store \<times> nat list \<Rightarrow> store \<times> nat list"
where
  "register_parameters (PParameter a) name (st, params) =
     (let name' = (case pname (st ! a) of
                     Some pn \<Rightarrow> (case name of None \<Rightarrow> pn | Some n \<Rightarrow> n @ ''.'' @ pn)
                   | None \<Rightarrow> (case name of None \<Rightarrow> [] | Some n \<Rightarrow> n))
      in (st[a := (st ! a)\<lparr>pname := Some name'\<rparr>], params @ [a]))"
| "register_parameters (PList vs) name s = register_list vs 0 name s"
| "register_parameters (PModule oname vs) name s =
     register_values vs ((case name of None \<Rightarrow> [] | Some n \<Rightarrow> n @ ''.'') @ oname) s"
| "register_parameters PNone name s = s"
| "register_parameters (PBool b) name s = s"
| "register_parameters (PNum x) name s = s"
| "register_parameters (PStr x) name s = s"
| "register_parameters (PTensor t) name s = s"
| "register_parameters (PObject c) name s = s"
| "register_list [] i name s = s"
| "register_list (v # vs) i name s =
     register_list vs (Suc i) name
       (register_parameters v
          (Some ((case name of None \<Rightarrow> [] | Some n \<Rightarrow> n) @ ''['' @ str_nat i @ '']'')) s)"
| "register_values [] nm s = s"
| "register_values (v # vs) nm s = register_values vs nm (register_parameters v (Some nm) s)"

text \<open>\<open>Model.log_prior()\<close>: Python's \<open>sum\<close> of the list of the Parameters' log-priors.\<close>

definition log_prior :: "store \<Rightarrow> nat list \<Rightarrow> real" where
  "log_prior st params = foldl (+) 0 (map (\<lambda>a. param_log_prior (st ! a)) params)"

text \<open>
  \<open>Model.parameters()\<close> yields the unconstrained tensor of each trainable Parameter of
  the registry (here: its address), and \<open>Model.get_parameters()\<close> returns the registry.
\<close>

definition parameters :: "store \<Rightarrow> nat list \<Rightarrow> nat list" where
  "parameters st params = filter (\<lambda>a. trainable (st ! a)) params"

definition get_parameters :: "nat list \<Rightarrow> nat list" where
  "get_parameters params = params"

text \<open>
  A registry of two Parameters with the same prior, of log-density \<open>- v\<^sup>2 / 2\<close> summed
  over the entries: the first trainable with value 1, the second fixed with value 2.
\<close>

definition half_square_prior :: "tensor \<Rightarrow> real" where
  "half_square_prior v = - (\<Sum>x\<leftarrow>elems v. x * x) / 2"

definition two_priors :: store where
  "two_priors =
     [(Parameter \<lparr>shape = [], elems = [1]\<rparr> (Some ''a'') None True)\<lparr>prior := Some half_square_prior\<rparr>,
      (Parameter \<lparr>shape = [], elems = [2]\<rparr> (Some ''b'') None False)\<lparr>prior := Some half_square_prior\<rparr>]"

text \<open>The addresses of the Parameter objects that an object refers to.\<close>

fun param_addrs :: "pyval \<Rightarrow> nat set" where
  "param_addrs (PParameter a) = {a}"
| "param_addrs (PList vs) = (\<Union>v \<in> set vs. param_addrs v)"
| "param_addrs (PModule oname vs) = (\<Union>v \<in> set vs. param_addrs v)"
| "param_addrs PNone = {}"
| "param_addrs (PBool b) = {}"
| "param_addrs (PNum x) = {}"
| "param_addrs (PStr x) = {}"
| "param_addrs (PTensor t) = {}"
| "param_addrs (PObject c) = {}"

section \<open>Dense linear algebra over the reals\<close>

text \<open>
  The tensor operations the models call, on rank-2 tensors as lists of rows and with real
  numbers for floating-point values. A column vector is a matrix with rows of length 1.
\<close>

type_synonym matrix = "real list list"

definition nrows :: "matrix \<Rightarrow> nat" where
  "nrows A = length A"

definition ncols :: "matrix \<Rightarrow> nat" where
  "ncols A = (case A of [] \<Rightarrow> 0 | r # _ \<Rightarrow> length r)"

definition dot :: "real list \<Rightarrow> real list \<Rightarrow> real" where
  "dot xs ys = sum_list (map2 (*) xs ys)"

text \<open>\<open>A.T\<close>, \<open>A.mm(B)\<close>, \<open>A + B\<close>, \<open>A - B\<close>, \<open>A / c\<close>.\<close>

definition mT :: "matrix \<Rightarrow> matrix" where
  "mT A = map (\<lambda>j. map (\<lambda>r. r ! j) A) [0..<ncols A]"

definition mm :: "matrix \<Rightarrow> matrix \<Rightarrow> matrix" where
  "mm A B = map (\<lambda>r. map (\<lambda>c. dot r c) (mT B)) A"

definition madd :: "matrix \<Rightarrow> matrix \<Rightarrow> matrix" where
  "madd A B = map2 (map2 (+)) A B"

definition msub :: "matrix \<Rightarrow> matrix \<Rightarrow> matrix" where
  "msub A B = map2 (map2 (-)) A B"

definition mdiv :: "matrix \<Rightarrow> real \<Rightarrow> matrix" where
  "mdiv A c = map (map (\<lambda>x. x / c)) A"

text \<open>\<open>A.diagonal()\<close>, \<open>v.diagflat()\<close>, \<open>torch.eye(n)\<close>, \<open>A.trace()\<close>, \<open>A.tril()\<close>.\<close>

definition diagonal :: "matrix \<Rightarrow> real list" where
  "diagonal A = map (\<lambda>i. A ! i ! i) [0..<min (nrows A) (ncols A)]"

definition diagflat :: "real list \<Rightarrow> matrix" where
  "diagflat v = map (\<lambda>i. map (\<lambda>j. if i = j then v ! i else 0) [0..<length v]) [0..<length v]"

definition eye :: "nat \<Rightarrow> matrix" where
  "eye n = diagflat (replicate n 1)"

definition trace :: "matrix \<Rightarrow> real" where
  "trace A = sum_list (diagonal A)"

definition tril :: "matrix \<Rightarrow> matrix" where
  "tril A = map (\<lambda>i. map (\<lambda>j. if j \<le> i then A ! i ! j else 0) [0..<ncols A]) [0..<nrows A]"

text \<open>\<open>v.mean()\<close> of a vector, and \<open>A.T.square().sum(dim=1)\<close>: the sums of squares of the columns.\<close>

definition vmean :: "real list \<Rightarrow> real" where
  "vmean v = sum_list v / real (length v)"

definition col_square_sums :: "matrix \<Rightarrow> real list" where
  "col_square_sums A = map (\<lambda>c. dot c c) (mT A)"

text \<open>A column vector from its entries, and the entries of a column vector.\<close>

definition column :: "real list \<Rightarrow> matrix" where
  "column v = map (\<lambda>x. [x]) v"

definition entries :: "matrix \<Rightarrow> real list" where
  "entries A = concat A"

text \<open>\<open>A.squeeze()\<close> of a one by one matrix: its entry.\<close>

definition squeeze :: "matrix \<Rightarrow> real" where
  "squeeze A = A ! 0 ! 0"

text \<open>
  \<open>torch.linalg.solve_triangular(L, B, upper=False)\<close>: forward substitution, column by
  column. \<open>forward_subst rows b acc\<close> has solved for \<open>acc\<close> and goes on with the rows left.
\<close>

fun forward_subst :: "matrix \<Rightarrow> real list \<Rightarrow> real list \<Rightarrow> real list" where
  "forward_subst [] b acc = acc"
| "forward_subst (row # rows) b acc =
     forward_subst rows b (acc @ [(b ! length acc - dot acc row) / (row ! length acc)])"

definition solve_lower :: "matrix \<Rightarrow> matrix \<Rightarrow> matrix" where
  "solve_lower L B = mT (map (\<lambda>b. forward_subst L b []) (mT B))"

text \<open>
  \<open>torch.linalg.solve_triangular(U, B, upper=True)\<close>: backward substitution, which is
  forward substitution on the system with rows and columns in reverse order.
\<close>

definition solve_upper :: "matrix \<Rightarrow> matrix \<Rightarrow> matrix" where
  "solve_upper U B = mT (map (\<lambda>b. rev (forward_subst (rev (map rev U)) (rev b) [])) (mT B))"

text \<open>\<open>torch.cholesky_solve(B, L)\<close>: the solution of \<open>L L\<^sup>T X = B\<close>.\<close>

definition cholesky_solve :: "matrix \<Rightarrow> matrix \<Rightarrow> matrix" where
  "cholesky_solve B L = solve_upper (mT L) (solve_lower L B)"

text \<open>
  \<open>torch.linalg.cholesky(A)\<close> over the reals, row by row: the entries left of the
  diagonal, then the pivot, which must be positive. A pivot that is not makes the
  factorization fail with the message that names the order of the leading minor.
\<close>

fun chol_offdiag :: "matrix \<Rightarrow> real list \<Rightarrow> real list \<Rightarrow> real list" where
  "chol_offdiag [] a acc = acc"
| "chol_offdiag (Lj # Ls) a acc =
     chol_offdiag Ls a (acc @ [(a ! length acc - dot acc Lj) / (Lj ! length acc)])"

definition not_pd_message :: "nat \<Rightarrow> string" where
  "not_pd_message k =
     ''linalg.cholesky: The factorization could not be completed because the input is not positive-definite (the leading minor of order ''
     @ str_nat k @ '' is not positive-definite).''"

fun chol_rows :: "nat \<Rightarrow> matrix \<Rightarrow> matrix \<Rightarrow> string + matrix" where
  "chol_rows n [] L = Inr L"
| "chol_rows n (a # rest) L =
     (let off = chol_offdiag L a []; d = a ! length L - dot off off
      in if d \<le> 0 then Inl (not_pd_message (Suc (length L)))
         else chol_rows n rest (L @ [off @ [sqrt d] @ replicate (n - Suc (length L)) 0]))"

definition torch_cholesky :: "matrix \<Rightarrow> string + matrix" where
  "torch_cholesky A = chol_rows (length A) A []"

section \<open>The base class \<open>Model\<close>\<close>

text \<open>
  The collaborators of a model, at their interface. A kernel offers \<open>K(X1, X2=None)\<close>, its
  call operator \<open>kernel(X1, X2=None)\<close>, \<open>K_diag(X)\<close> and \<open>output_dims\<close>; a mean is callable;
  a likelihood offers \<open>validate_y\<close> (here: the message of the error it raises, if any),
  \<open>variational_expectation\<close>, \<open>predict\<close> and, when Gaussian, the Parameter \<open>scale\<close>. Each
  carries the flag of the class test the constructor makes and the object the registry
  walks. The functions are those of the object at the current values of its
  hyperparameters.
\<close>

record kernel =
  derives_Kernel :: bool
  kernel_obj :: pyval
  output_dims :: nat
  kernel_K :: "tensor \<Rightarrow> tensor option \<Rightarrow> matrix"
  kernel_call :: "tensor \<Rightarrow> tensor option \<Rightarrow> matrix"
  kernel_K_diag :: "tensor \<Rightarrow> real list"

record mean_fn =
  derives_Mean :: bool
  mean_obj :: pyval
  mean_call :: "tensor \<Rightarrow> tensor"

record likelihood =
  derives_MultiOutputLikelihood :: bool
  lik_output_dims :: nat
  lik_obj :: pyval
  validate_y :: "tensor \<Rightarrow> tensor \<Rightarrow> string option"
  variational_expectation :: "matrix \<Rightarrow> matrix \<Rightarrow> matrix \<Rightarrow> tensor \<Rightarrow> real"
  lik_predict :: "matrix \<Rightarrow> matrix \<Rightarrow> bool \<Rightarrow> tensor \<Rightarrow> matrix \<times> matrix"
  scale :: nat

datatype dtype = float32 | float64 | other_dtype

text \<open>The attributes that \<open>Model.__init__\<close> sets; \<open>params\<close> is the registry \<open>_params\<close>.\<close>

record model =
  kernel :: kernel
  data_X :: tensor
  data_y :: tensor
  likelihood :: likelihood
  jitter :: real
  mean :: "mean_fn option"
  model_name :: "string option"
  input_dims :: nat
  params :: "nat list"

text \<open>The rows of a rank-2 tensor, and \<open>t.reshape(-1,1)\<close> as a column vector.\<close>

definition to_matrix :: "tensor \<Rightarrow> matrix" where
  "to_matrix t = map (\<lambda>i. take (shape t ! 1) (drop (i * (shape t ! 1)) (elems t))) [0..<shape t ! 0]"

definition as_column :: "tensor \<Rightarrow> matrix" where
  "as_column t = column (elems t)"

text \<open>How a \<open>torch.Size\<close> prints.\<close>

fun join_comma :: "string list \<Rightarrow> string" where
  "join_comma [] = []"
| "join_comma [x] = x"
| "join_comma (x # y # rest) = x @ '', '' @ join_comma (y # rest)"

definition str_size :: "nat list \<Rightarrow> string" where
  "str_size sh = ''torch.Size(['' @ join_comma (map str_nat sh) @ ''])''"

text \<open>
  \<open>Model.__init__(kernel, X, y, likelihood, jitter, mean, name)\<close>, with the configured
  \<open>dtype\<close> and the store; it returns the model and the store, in which the registered
  Parameters have their names.
\<close>

definition Model_init ::
  "kernel \<Rightarrow> tensor \<Rightarrow> tensor \<Rightarrow> likelihood \<Rightarrow> real \<Rightarrow> mean_fn option \<Rightarrow> string option \<Rightarrow>
   dtype \<Rightarrow> store \<Rightarrow> 'm error + model \<times> store" where
  "Model_init kern X0 y0 lik jit mn nm dt st =
    (if \<not> derives_Kernel kern then Inl (ValueError ''kernel must derive from mogptk.gpr.Kernel'')
     else case check_input 0 X0 (Some y0) of
       Inl e \<Rightarrow> Inl e
     | Inr (X, yo) \<Rightarrow>
        (let y = the yo in
         if mn \<noteq> None \<and> \<not> derives_Mean (the mn) then
           Inl (ValueError ''mean must derive from mogptk.gpr.Mean'')
         else if mn \<noteq> None \<and> shape (reshape_m1_1 (mean_call (the mn) X)) \<noteq> shape y then
           Inl (ValueError (''mean and y data must match shapes: ''
                  @ str_size (shape (reshape_m1_1 (mean_call (the mn) X))) @ '' != '' @ str_size (shape y)))
         else if derives_MultiOutputLikelihood lik \<and> lik_output_dims lik \<noteq> output_dims kern then
           Inl (ValueError ''kernel and likelihood must have matching output dimensions'')
         else case validate_y lik y X of
           Some msg \<Rightarrow> Inl (ValueError msg)
         | None \<Rightarrow>
            (let jit' = (if dt = float32 then max jit (1 / 10 ^ 6)
                         else if dt = float64 then max jit (1 / 10 ^ 15) else jit);
                 s0 = (st, []);
                 s1 = register_parameters (kernel_obj kern) None s0;
                 s2 = register_parameters (lik_obj lik) None s1;
                 s3 = (case mn of None \<Rightarrow> s2 | Some m \<Rightarrow> register_parameters (mean_obj m) None s2)
             in Inr (\<lparr>kernel = kern, data_X = X, data_y = y, likelihood = lik, jitter = jit',
                       mean = mn, model_name = nm, input_dims = shape X ! 1, params = snd s3\<rparr>,
                     fst s3))))"

text \<open>
  \<open>Model._cholesky(K, add_jitter=False)\<close>. The jitter, when asked for, is added to \<open>K\<close> in
  place, so the matrix that is factorized is also the one the exception carries.
\<close>

definition add_jitter_diag :: "real \<Rightarrow> matrix \<Rightarrow> matrix" where
  "add_jitter_diag jit K0 = madd K0 (diagflat (replicate (nrows K0) (jit * vmean (diagonal K0))))"

definition Model_cholesky :: "'a model_scheme \<Rightarrow> matrix \<Rightarrow> bool \<Rightarrow> ('a model_scheme) error + matrix" where
  "Model_cholesky self K0 add_jitter =
    (let K = (if add_jitter then add_jitter_diag (jitter self) K0 else K0)
     in case torch_cholesky K of
          Inr L \<Rightarrow> Inr L
        | Inl msg \<Rightarrow> Inl (CholeskyException msg K self))"

text \<open>
  \<open>Model._index_channel(value, X)\<close>: for a multi-output kernel, a value with one entry
  per channel is read at the channel of each row of \<open>X\<close>, its first column.
\<close>

definition trunc :: "real \<Rightarrow> int" where
  "trunc x = (if 0 \<le> x then \<lfloor>x\<rfloor> else \<lceil>x\<rceil>)"

definition first_column_long :: "tensor \<Rightarrow> int list" where
  "first_column_long X = map (\<lambda>row. trunc (row ! 0)) (to_matrix X)"

definition index_select0 :: "tensor \<Rightarrow> int list \<Rightarrow> 'm error + tensor" where
  "index_select0 v idx =
    (if \<exists>i \<in> set idx. i < 0 \<or> int (shape v ! 0) \<le> i then Inl (IndexError ''index out of range in self'')
     else let c = prod_list (tl (shape v))
          in Inr \<lparr>shape = length idx # tl (shape v),
                  elems = concat (map (\<lambda>i. take c (drop (nat i * c) (elems v))) idx)\<rparr>)"

definition index_channel :: "'a model_scheme \<Rightarrow> tensor \<Rightarrow> tensor \<Rightarrow> 'm error + tensor" where
  "index_channel self v X =
    (if 1 < output_dims (kernel self) \<and> 0 < ndim v \<and> shape v ! 0 = output_dims (kernel self)
     then index_select0 v (first_column_long X)
     else Inr v)"

text \<open>
  Broadcasting of a value of rank at most 1 against a vector of length \<open>n\<close>: a scalar
  and a vector of one entry are repeated, a vector of \<open>n\<close> entries is taken as it is, and
  any other shape is an error of the tensor library.
\<close>

definition broadcast_to :: "nat \<Rightarrow> tensor \<Rightarrow> 'm error + real list" where
  "broadcast_to n v =
    (if ndim v = 0 \<or> shape v = [1] then Inr (replicate n (elems v ! 0))
     else if shape v = [n] then Inr (elems v)
     else Inl (RuntimeError ''The size of tensor a must match the size of tensor b''))"

text \<open>\<open>value * eye\<close> for the identity \<open>eye\<close> of order \<open>n\<close>, and \<open>var + value\<close> for a vector.\<close>

definition times_eye :: "tensor \<Rightarrow> nat \<Rightarrow> 'm error + matrix" where
  "times_eye v n = (case broadcast_to n v of Inl e \<Rightarrow> Inl e | Inr w \<Rightarrow> Inr (diagflat w))"

definition vadd :: "real list \<Rightarrow> real list \<Rightarrow> real list" where
  "vadd xs ys = map2 (+) xs ys"

definition vsub :: "real list \<Rightarrow> real list \<Rightarrow> real list" where
  "vsub xs ys = map2 (-) xs ys"

section \<open>The model \<open>Exact\<close>\<close>

text \<open>
  The attributes that the inference models add to those of \<open>Model\<close>: the identity matrix
  \<open>eye\<close> and \<open>log_marginal_likelihood_constant\<close>; for \<open>Exact\<close> the flag
  \<open>variance_per_data\<close>.
\<close>

record gp_model = model +
  eye_attr :: matrix
  log_marginal_likelihood_constant :: real

record exact = gp_model +
  variance_per_data :: bool

text \<open>
  Modelled from the spec: \<open>GaussianLikelihood(variance)\<close>, which is not part of the sources
  at hand. It owns one Parameter, \<open>scale\<close>, the noise variance (a scalar, or one entry per
  output channel or per data point), takes any observations, and is not a multi-output
  likelihood. Its other capabilities play no part in \<open>Exact\<close>.
\<close>

definition GaussianLikelihood :: "tensor \<Rightarrow> store \<Rightarrow> likelihood \<times> store" where
  "GaussianLikelihood variance st =
    (let (a, st') = alloc (Parameter variance (Some ''scale'') None True) st
     in (\<lparr>derives_MultiOutputLikelihood = False, lik_output_dims = 1,
          lik_obj = PModule ''GaussianLikelihood'' [PStr ''GaussianLikelihood'', PParameter a],
          validate_y = (\<lambda>y X. None),
          variational_expectation = (\<lambda>y mu var X. 0),
          lik_predict = (\<lambda>mu var full X. (mu, var)),
          scale = a\<rparr>, st'))"


text \<open>The noise term that \<open>Exact\<close> adds to \<open>K(X, X)\<close>, and the training targets less the mean.\<close>

definition exact_noise :: "'a exact_scheme \<Rightarrow> store \<Rightarrow> 'm error + matrix" where
  "exact_noise self st =
    (if variance_per_data self then Inr (diagflat (elems (pvalue (st ! scale (likelihood self)))))
     else case index_channel self (pvalue (st ! scale (likelihood self))) (data_X self) of
            Inl e \<Rightarrow> Inl e
          | Inr v \<Rightarrow> times_eye v (nrows (eye_attr self)))"

definition centred_y :: "'a model_scheme \<Rightarrow> matrix" where
  "centred_y self =
    (case mean self of
       None \<Rightarrow> to_matrix (data_y self)
     | Some m \<Rightarrow> msub (to_matrix (data_y self)) (as_column (mean_call m (data_X self))))"

text \<open>\<open>Exact.log_marginal_likelihood()\<close>.\<close>

definition Exact_log_marginal_likelihood :: "'a exact_scheme \<Rightarrow> store \<Rightarrow> ('a exact_scheme) error + real" where
  "Exact_log_marginal_likelihood self st =
    (case exact_noise self st of
       Inl e \<Rightarrow> Inl e
     | Inr noise \<Rightarrow>
        (let Kff = madd (kernel_K (kernel self) (data_X self) None) noise
         in case Model_cholesky self Kff True of
              Inl e \<Rightarrow> Inl e
            | Inr L \<Rightarrow>
               (let y = centred_y self;
                    p0 = - log_marginal_likelihood_constant self;
                    p1 = p0 - sum_list (map ln (diagonal L));
                    p2 = p1 - 0.5 * squeeze (mm (mT y) (cholesky_solve y L))
                in Inr p2)))"


section \<open>Inducing points: \<open>init_inducing_points\<close>\<close>

text \<open>
  The argument \<open>Z\<close> of the sparse models: a number of inducing points, a list of numbers
  (one per output channel), or the points themselves. Numbers of points are natural
  numbers.
\<close>

datatype z_arg = ZInt nat | ZInts "nat list" | ZTensor tensor

text \<open>\<open>torch.linspace(a, b, m)\<close>, and \<open>torch.min\<close> and \<open>torch.max\<close> of a non-empty vector.\<close>

definition linspace :: "real \<Rightarrow> real \<Rightarrow> nat \<Rightarrow> real list" where
  "linspace a b m = map (\<lambda>k. if m = 1 then a else a + real k * (b - a) / real (m - 1)) [0..<m]"

definition vmin :: "real list \<Rightarrow> real" where
  "vmin xs = fold min (tl xs) (hd xs)"

definition vmax :: "real list \<Rightarrow> real" where
  "vmax xs = fold max (tl xs) (hd xs)"

definition col :: "nat \<Rightarrow> matrix \<Rightarrow> real list" where
  "col i A = map (\<lambda>r. r ! i) A"

text \<open>
  The rows of \<open>Z\<close> for channel \<open>j\<close> with \<open>m\<close> points: the channel in the first column and,
  in every other column, \<open>m\<close> points spread evenly over the range of that column among
  the rows of \<open>X\<close> of that channel. With no such row the range does not exist.
\<close>

definition channel_block :: "matrix \<Rightarrow> nat \<Rightarrow> nat \<Rightarrow> nat \<Rightarrow> 'm error + matrix" where
  "channel_block Xm d j m =
    (let x = filter (\<lambda>row. row ! 0 = real j) Xm
     in if 1 < d \<and> x = [] then
          Inl (RuntimeError ''min(): Expected reduction dim to be specified for input.numel() == 0. Specify the reduction dim with the dim argument.'')
        else Inr (map (\<lambda>r. real j # map (\<lambda>i. linspace (vmin (col i x)) (vmax (col i x)) m ! r) [1..<d])
                    [0..<m]))"

fun channel_blocks :: "matrix \<Rightarrow> nat \<Rightarrow> nat \<Rightarrow> nat list \<Rightarrow> 'm error + matrix" where
  "channel_blocks Xm d j [] = Inr []"
| "channel_blocks Xm d j (m # ms) =
     (case channel_block Xm d j m of
        Inl e \<Rightarrow> Inl e
      | Inr rows \<Rightarrow>
         (case channel_blocks Xm d (Suc j) ms of
            Inl e \<Rightarrow> Inl e
          | Inr rest \<Rightarrow> Inr (rows @ rest)))"

text \<open>A list of numbers as the tensor that the conversion of the input validation makes of it.\<close>

definition tensor_of_nats :: "nat list \<Rightarrow> tensor" where
  "tensor_of_nats ms = \<lparr>shape = [length ms], elems = map real ms\<rparr>"

text \<open>
  \<open>init_inducing_points(Z, X, kernel)\<close>, where \<open>X\<close> is the validated training input. What
  the function returns unchanged is given as the tensor that the input validation,
  which every caller applies next, converts it to.
\<close>

definition init_inducing_points :: "z_arg \<Rightarrow> tensor \<Rightarrow> kernel \<Rightarrow> 'm error + tensor" where
  "init_inducing_points Z X kern =
    (let d = shape X ! 1; Xm = to_matrix X in
     if 1 < output_dims kern then
       (case Z of
          ZInt m \<Rightarrow>
            (case channel_blocks Xm d 0 (replicate (output_dims kern) m) of
               Inl e \<Rightarrow> Inl e
             | Inr rows \<Rightarrow> Inr \<lparr>shape = [output_dims kern * m, d], elems = concat rows\<rparr>)
        | ZInts ms \<Rightarrow>
            if length ms = output_dims kern then
              (case channel_blocks Xm d 0 ms of
                 Inl e \<Rightarrow> Inl e
               | Inr rows \<Rightarrow> Inr \<lparr>shape = [sum_list ms, d], elems = concat rows\<rparr>)
            else Inr (tensor_of_nats ms)
        | ZTensor t \<Rightarrow>
            if ndim t = 0 then Inl (TypeError ''iteration over a 0-d tensor'') else Inr t)
     else
       (case Z of
          ZInt m \<Rightarrow>
            Inr \<lparr>shape = [m, d],
                 elems = concat (map (\<lambda>r. map (\<lambda>i. linspace (vmin (col i Xm)) (vmax (col i Xm)) m ! r) [0..<d])
                                  [0..<m])\<rparr>
        | ZInts ms \<Rightarrow> Inr (tensor_of_nats ms)
        | ZTensor t \<Rightarrow> Inr t))"

section \<open>The sparse models \<open>Snelson\<close> and \<open>Titsias\<close>\<close>

text \<open>The sparse models add the Parameter \<open>Z\<close> of the inducing points.\<close>

record sparse_model = gp_model +
  Z_attr :: nat

text \<open>\<open>t.squeeze()\<close>: the axes of extent 1 go.\<close>

definition squeeze_tensor :: "tensor \<Rightarrow> tensor" where
  "squeeze_tensor t = t\<lparr>shape := filter (\<lambda>k. k \<noteq> 1) (shape t)\<rparr>"

text \<open>
  What the constructors of \<open>Snelson\<close> and \<open>Titsias\<close> do after \<open>Model.__init__\<close>: the inducing
  points, their validation, the attributes, and the registration of \<open>Z\<close>.
\<close>

definition sparse_finish :: "model \<Rightarrow> store \<Rightarrow> z_arg \<Rightarrow> 'm error + sparse_model \<times> store" where
  "sparse_finish m st Z0 =
    (case init_inducing_points Z0 (data_X m) (kernel m) of
       Inl e \<Rightarrow> Inl e
     | Inr Z1 \<Rightarrow>
        (case check_input (input_dims m) Z1 None of
           Inl e \<Rightarrow> Inl e
         | Inr (Z, _) \<Rightarrow>
            (let p0 = Parameter Z (Some ''induction_points'') None True;
                 p = (if 1 < output_dims (kernel m)
                      then p0\<lparr>num_parameters := num_parameters p0 - shape Z ! 0\<rparr> else p0);
                 (a, st1) = alloc p st;
                 (st2, ps) = register_parameters (PParameter a) None (st1, params m)
             in Inr (gp_model.extend
                       (model.extend (m\<lparr>params := ps\<rparr>)
                          (gp_model.fields (eye (shape Z ! 0))
                             (0.5 * real (shape (data_X m) ! 0) * ln (2 * pi))))
                       (sparse_model.fields a),
                     st2))))"

text \<open>\<open>Snelson.__init__(kernel, X, y, Z, variance, jitter, mean, name)\<close>.\<close>

definition Snelson_init ::
  "kernel \<Rightarrow> tensor \<Rightarrow> tensor \<Rightarrow> z_arg \<Rightarrow> tensor \<Rightarrow> real \<Rightarrow> mean_fn option \<Rightarrow> string option \<Rightarrow>
   dtype \<Rightarrow> store \<Rightarrow> 'm error + sparse_model \<times> store" where
  "Snelson_init kern X0 y0 Z0 variance0 jit mn nm dt st =
    (let variance = squeeze_tensor variance0
     in if 1 < ndim variance \<or> ndim variance = 1 \<and> shape variance ! 0 \<noteq> output_dims kern then
          Inl (ValueError ''variance must be float or have shape (channels,)'')
        else
          let (lik, st1) = GaussianLikelihood variance st
          in case Model_init kern X0 y0 lik jit mn nm dt st1 of
               Inl e \<Rightarrow> Inl e
             | Inr (m, st2) \<Rightarrow> sparse_finish m st2 Z0)"


text \<open>
  \<open>Titsias.__init__(kernel, X, y, Z, variance, jitter, mean, name)\<close>, with the variance a
  number as documented.
\<close>

definition Titsias_init ::
  "kernel \<Rightarrow> tensor \<Rightarrow> tensor \<Rightarrow> z_arg \<Rightarrow> real \<Rightarrow> real \<Rightarrow> mean_fn option \<Rightarrow> string option \<Rightarrow>
   dtype \<Rightarrow> store \<Rightarrow> 'm error + sparse_model \<times> store" where
  "Titsias_init kern X0 y0 Z0 variance jit mn nm dt st =
    (let (lik, st1) = GaussianLikelihood \<lparr>shape = [], elems = [variance]\<rparr> st
     in case Model_init kern X0 y0 lik jit mn nm dt st1 of
          Inl e \<Rightarrow> Inl e
        | Inr (m, st2) \<Rightarrow> sparse_finish m st2 Z0)"

text \<open>\<open>self.likelihood.scale()\<close> where it is used as a number.\<close>

definition scale_value :: "'a model_scheme \<Rightarrow> store \<Rightarrow> real" where
  "scale_value self st = elems (pvalue (st ! scale (likelihood self))) ! 0"

text \<open>\<open>Titsias.elbo()\<close>.\<close>

definition Titsias_elbo :: "'a sparse_model_scheme \<Rightarrow> store \<Rightarrow> ('a sparse_model_scheme) error + real" where
  "Titsias_elbo self st =
    (let y = centred_y self;
         Zv = pvalue (st ! Z_attr self);
         Kff_diag = kernel_K_diag (kernel self) (data_X self);
         Kuf = kernel_call (kernel self) Zv (Some (data_X self));
         Kuu = kernel_call (kernel self) Zv None
     in case Model_cholesky self Kuu True of
          Inl e \<Rightarrow> Inl e
        | Inr Luu \<Rightarrow>
           (let v = solve_lower Luu Kuf;
                Q = mm v (mT v)
            in case Model_cholesky self (madd (mdiv Q (scale_value self st)) (eye_attr self)) False of
                 Inl e \<Rightarrow> Inl e
               | Inr L \<Rightarrow>
                  (let c = mdiv (solve_lower L (mm v y)) (scale_value self st);
                       p0 = - log_marginal_likelihood_constant self;
                       p1 = p0 - sum_list (map ln (diagonal L));
                       p2 = p1 - 0.5 * real (shape (data_X self) ! 0) * ln (scale_value self st);
                       p3 = p2 - 0.5 * squeeze (mm (mT y) y) / scale_value self st;
                       p4 = p3 + 0.5 * squeeze (mm (mT c) c);
                       p5 = p4 - 0.5 * (sum_list Kff_diag - trace Q) / scale_value self st
                   in Inr p5)))"


section \<open>The models \<open>SparseHensman\<close> and \<open>Hensman\<close>\<close>

record sparse_hensman = sparse_model +
  is_sparse :: bool
  q_mu :: nat
  q_sqrt :: nat

text \<open>\<open>torch.zeros(n, 1)\<close> and \<open>torch.eye(n)\<close> as tensors.\<close>

definition zeros_n_1 :: "nat \<Rightarrow> tensor" where
  "zeros_n_1 n = \<lparr>shape = [n, 1], elems = replicate n 0\<rparr>"

definition eye_tensor :: "nat \<Rightarrow> tensor" where
  "eye_tensor n = \<lparr>shape = [n, n], elems = concat (eye n)\<rparr>"

text \<open>
  \<open>SparseHensman.__init__(kernel, X, y, Z, likelihood, jitter, mean, name)\<close>, with \<open>Z\<close>
  absent for \<open>None\<close>. The three Parameters are created in the order \<open>q_mu\<close>, \<open>q_sqrt\<close>,
  \<open>Z\<close>; \<open>q_mu\<close> and \<open>q_sqrt\<close> are registered, and \<open>Z\<close> only if the model is sparse.
\<close>

definition SparseHensman_init ::
  "kernel \<Rightarrow> tensor \<Rightarrow> tensor \<Rightarrow> z_arg option \<Rightarrow> likelihood \<Rightarrow> real \<Rightarrow> mean_fn option \<Rightarrow>
   string option \<Rightarrow> dtype \<Rightarrow> store \<Rightarrow> 'm error + sparse_hensman \<times> store" where
  "SparseHensman_init kern X0 y0 Z0 lik jit mn nm dt st =
    (case Model_init kern X0 y0 lik jit mn nm dt st of
       Inl e \<Rightarrow> Inl e
     | Inr (m, st1) \<Rightarrow>
        (let sparse = (Z0 \<noteq> None) in
         case (if sparse then
                 (case init_inducing_points (the Z0) (data_X m) kern of
                    Inl e \<Rightarrow> Inl e
                  | Inr Z1 \<Rightarrow>
                     (case check_input (input_dims m) Z1 None of
                        Inl e \<Rightarrow> Inl e
                      | Inr (Z, _) \<Rightarrow> Inr (Some Z)))
               else Inr None) of
           Inl e \<Rightarrow> Inl e
         | Inr Zo \<Rightarrow>
            (let n = (case Zo of None \<Rightarrow> shape (data_X m) ! 0 | Some Z \<Rightarrow> shape Z ! 0);
                 (a_mu, st2) = alloc (Parameter (zeros_n_1 n) (Some ''q_mu'') None True) st1;
                 (a_sqrt, st3) = alloc ((Parameter (eye_tensor n) (Some ''q_sqrt'') None True)
                                          \<lparr>num_parameters := (n * n + n) div 2\<rparr>) st2;
                 pZ = (case Zo of
                         Some Z \<Rightarrow>
                           (let p0 = Parameter Z (Some ''induction_points'') None True
                            in if 1 < output_dims kern
                               then p0\<lparr>num_parameters := num_parameters p0 - shape Z ! 0\<rparr> else p0)
                       | None \<Rightarrow> Parameter (data_X m) None None False);
                 (a_Z, st4) = alloc pZ st3;
                 s1 = register_parameters (PParameter a_mu) None (st4, params m);
                 s2 = register_parameters (PParameter a_sqrt) None s1;
                 s3 = (if sparse then register_parameters (PParameter a_Z) None s2 else s2)
             in Inr (sparse_model.extend
                       (gp_model.extend
                          (model.extend (m\<lparr>params := snd s3\<rparr>)
                             (gp_model.fields (eye n) (0.5 * real (shape (data_X m) ! 0) * ln (2 * pi))))
                          (sparse_model.fields a_Z))
                       (sparse_hensman.fields sparse a_mu a_sqrt),
                     fst s3))))"

text \<open>\<open>Hensman.__init__(kernel, X, y, likelihood, jitter, mean, name)\<close>.\<close>

definition Hensman_init ::
  "kernel \<Rightarrow> tensor \<Rightarrow> tensor \<Rightarrow> likelihood \<Rightarrow> real \<Rightarrow> mean_fn option \<Rightarrow>
   string option \<Rightarrow> dtype \<Rightarrow> store \<Rightarrow> 'm error + sparse_hensman \<times> store" where
  "Hensman_init kern X0 y0 lik jit mn nm dt st = SparseHensman_init kern X0 y0 None lik jit mn nm dt st"

text \<open>The default names of the two classes.\<close>

definition SparseHensman_default_name :: "string option" where
  "SparseHensman_default_name = Some ''SparseHensman''"

definition Hensman_default_name :: "string option" where
  "Hensman_default_name = Some ''Hensman''"

text \<open>\<open>SparseHensman.kl_gaussian(q_mu, q_sqrt)\<close>.\<close>

definition kl_gaussian :: "matrix \<Rightarrow> matrix \<Rightarrow> real" where
  "kl_gaussian qm qs =
    (let S_diag = map (\<lambda>x. x * x) (diagonal qs);
         kl0 = - real (nrows qm);
         kl1 = kl0 + squeeze (mm (mT qm) qm);
         kl2 = kl1 - sum_list (map ln S_diag);
         kl3 = kl2 + sum_list S_diag
     in 0.5 * kl3)"

text \<open>\<open>SparseHensman._predict(Xs, full)\<close>.\<close>

definition SparseHensman_predict_inner ::
  "'a sparse_hensman_scheme \<Rightarrow> store \<Rightarrow> tensor \<Rightarrow> bool \<Rightarrow>
   ('a sparse_hensman_scheme) error + matrix \<times> matrix" where
  "SparseHensman_predict_inner self st Xs full =
    (let Zv = pvalue (st ! Z_attr self);
         qm = to_matrix (pvalue (st ! q_mu self));
         qs = to_matrix (pvalue (st ! q_sqrt self));
         Kuu = kernel_call (kernel self) Zv None;
         Kus = kernel_call (kernel self) Zv (Some Xs)
     in case Model_cholesky self Kuu True of
          Inl e \<Rightarrow> Inl e
        | Inr Luu \<Rightarrow>
           (let a = solve_lower Luu Kus;
                b = mm (mT (tril qs)) (solve_lower Luu Kus);
                mu = mm (mT Kus) (solve_upper (mT Luu) qm)
            in if full then
                 (let Kss = kernel_call (kernel self) Xs None
                  in Inr (mu, madd (msub Kss (mm (mT a) a)) (mm (mT b) b)))
               else
                 (let Kss_diag = kernel_K_diag (kernel self) Xs
                  in Inr (mu, column (vadd (vsub Kss_diag (col_square_sums a)) (col_square_sums b))))))"

text \<open>\<open>SparseHensman.elbo()\<close>.\<close>

definition SparseHensman_elbo ::
  "'a sparse_hensman_scheme \<Rightarrow> store \<Rightarrow> ('a sparse_hensman_scheme) error + real" where
  "SparseHensman_elbo self st =
    (let y = centred_y self;
         qm = to_matrix (pvalue (st ! q_mu self));
         qs = to_matrix (pvalue (st ! q_sqrt self))
     in case (if is_sparse self then SparseHensman_predict_inner self st (data_X self) False
              else
                (let Kff = kernel_call (kernel self) (data_X self) None
                 in case Model_cholesky self Kff True of
                      Inl e \<Rightarrow> Inl e
                    | Inr Lff \<Rightarrow>
                       (let qf_mu0 = mm Lff qm;
                            qf_mu = (case mean self of None \<Rightarrow> qf_mu0
                                     | Some m \<Rightarrow> msub qf_mu0 (as_column (mean_call m (data_X self))));
                            qf_sqrt = mm Lff (tril qs)
                        in Inr (qf_mu, column (diagonal (mm qf_sqrt (mT qf_sqrt))))))) of
          Inl e \<Rightarrow> Inl e
        | Inr (qf_mu, qf_var_diag) \<Rightarrow>
           (let var_exp = variational_expectation (likelihood self) y qf_mu qf_var_diag (data_X self);
                kl = kl_gaussian qm qs
            in Inr (var_exp - kl)))"

text \<open>\<open>SparseHensman.predict(Xs, full, tensor, predict_y)\<close>.\<close>

definition SparseHensman_predict ::
  "'a sparse_hensman_scheme \<Rightarrow> store \<Rightarrow> tensor \<Rightarrow> bool \<Rightarrow> bool \<Rightarrow>
   ('a sparse_hensman_scheme) error + matrix \<times> matrix" where
  "SparseHensman_predict self st Xs0 full predict_y =
    (case check_input (input_dims self) Xs0 None of
       Inl e \<Rightarrow> Inl e
     | Inr (Xs, _) \<Rightarrow>
        (case SparseHensman_predict_inner self st Xs full of
           Inl e \<Rightarrow> Inl e
         | Inr (mu0, var0) \<Rightarrow>
            (let (mu1, var) = (if predict_y then lik_predict (likelihood self) mu0 var0 full Xs
                               else (mu0, var0));
                 mu = (case mean self of None \<Rightarrow> mu1
                       | Some m \<Rightarrow> madd mu1 (as_column (mean_call m Xs)))
             in Inr (mu, var))))"

text \<open>
  \<open>Model.print_parameters\<close>: the text of the range column, the row of a Parameter and
  the rows of the table, with \<open>fmt\<close> for the way a tensor prints.
\<close>

definition inf_sign :: string where
  "inf_sign = [char_of (226::nat), char_of (136::nat), char_of (158::nat)]"

definition param_range :: "(tensor \<Rightarrow> string) \<Rightarrow> tensor option \<Rightarrow> tensor option \<Rightarrow> bool \<Rightarrow> bool \<Rightarrow> string" where
  "param_range fmt lo up tr pg =
    (if pg then ''pegged''
     else if \<not> tr then ''fixed''
     else if lo = None \<and> up = None then ''(-'' @ inf_sign @ '', '' @ inf_sign @ '')''
     else if lo = None then ''(-'' @ inf_sign @ '', '' @ fmt (the up) @ '']''
     else if up = None then ''['' @ fmt (the lo) @ '', '' @ inf_sign @ '')''
     else ''['' @ fmt (the lo) @ '', '' @ fmt (the up) @ '']'')"

definition parameter_row :: "(tensor \<Rightarrow> string) \<Rightarrow> store \<Rightarrow> nat \<Rightarrow> string \<times> string \<times> string" where
  "parameter_row fmt st a =
     (case pname (st ! a) of None \<Rightarrow> ''None'' | Some n \<Rightarrow> n,
      param_range fmt (lower (st ! a)) (upper (st ! a)) (trainable (st ! a)) (pegged (st ! a)),
      fmt (pvalue (st ! a)))"

definition parameter_rows :: "(tensor \<Rightarrow> string) \<Rightarrow> store \<Rightarrow> nat list \<Rightarrow> (string \<times> string \<times> string) list" where
  "parameter_rows fmt st ps = (''Name'', ''Range'', ''Value'') # map (parameter_row fmt st) ps"

text \<open>
  The branch of \<open>SparseHensman.elbo()\<close> for a model that is not sparse, on its own: the
  marginal \<open>q(f)\<close> comes from pushing \<open>q_mu\<close> and \<open>q_sqrt\<close> through the Cholesky factor of
  \<open>K(X, X)\<close>.
\<close>

definition nonsparse_elbo ::
  "'a sparse_hensman_scheme \<Rightarrow> store \<Rightarrow> ('a sparse_hensman_scheme) error + real" where
  "nonsparse_elbo self st =
    (let y = centred_y self;
         qm = to_matrix (pvalue (st ! q_mu self));
         qs = to_matrix (pvalue (st ! q_sqrt self));
         Kff = kernel_call (kernel self) (data_X self) None
     in case Model_cholesky self Kff True of
          Inl e \<Rightarrow> Inl e
        | Inr Lff \<Rightarrow>
           (let qf_mu0 = mm Lff qm;
                qf_mu = (case mean self of None \<Rightarrow> qf_mu0
                         | Some m \<Rightarrow> msub qf_mu0 (as_column (mean_call m (data_X self))));
                qf_sqrt = mm Lff (tril qs);
                qf_var_diag = column (diagonal (mm qf_sqrt (mT qf_sqrt)))
            in Inr (variational_expectation (likelihood self) y qf_mu qf_var_diag (data_X self)
                    - kl_gaussian qm qs)))"

section \<open>A small model to compute with\<close>

text \<open>
  The kernel \<open>k(x, x') = 1 + x \<cdot> x'\<close> with one Parameter, at address 0 of the store
  \<open>store0\<close>; training inputs 0 and 1 with targets 1 and 3.
\<close>

definition lin_K :: "tensor \<Rightarrow> tensor option \<Rightarrow> matrix" where
  "lin_K X1 X2 =
    (let A = to_matrix X1; B = (case X2 of None \<Rightarrow> A | Some x \<Rightarrow> to_matrix x)
     in map (\<lambda>a. map (\<lambda>b. 1 + dot a b) B) A)"

definition lin_kernel :: kernel where
  "lin_kernel =
     \<lparr>derives_Kernel = True,
      kernel_obj = PModule ''LinearKernel'' [PStr ''LinearKernel'', PParameter 0],
      output_dims = 1, kernel_K = lin_K, kernel_call = lin_K,
      kernel_K_diag = (\<lambda>X. map (\<lambda>a. 1 + dot a a) (to_matrix X))\<rparr>"

definition store0 :: store where
  "store0 = [Parameter \<lparr>shape = [], elems = [1]\<rparr> (Some ''bias'') None True]"

definition X01 :: tensor where
  "X01 = \<lparr>shape = [2], elems = [0, 1]\<rparr>"

definition y13 :: tensor where
  "y13 = \<lparr>shape = [2], elems = [1, 3]\<rparr>"

text \<open>A model of the base class with jitter \<open>j\<close>, for the factorization alone.\<close>

definition base_model :: "real \<Rightarrow> model" where
  "base_model j =
     \<lparr>kernel = lin_kernel, data_X = promote X01, data_y = promote y13,
      likelihood = fst (GaussianLikelihood \<lparr>shape = [], elems = [1]\<rparr> store0),
      jitter = j, mean = None, model_name = None, input_dims = 1, params = [0, 1]\<rparr>"


text \<open>Variances 3 and 2 for the two data points, and the query point 2.\<close>

definition var32 :: tensor where "var32 = \<lparr>shape = [2, 1], elems = [3, 2]\<rparr>"



text \<open>A Gaussian likelihood of variance 1 and the store that holds its Parameter.\<close>

definition gauss_lik :: likelihood where
  "gauss_lik = fst (GaussianLikelihood \<lparr>shape = [], elems = [1]\<rparr> store0)"

definition store1 :: store where
  "store1 = snd (GaussianLikelihood \<lparr>shape = [], elems = [1]\<rparr> store0)"

text \<open>One inducing point, at 1.\<close>

definition Z1 :: tensor where
  "Z1 = \<lparr>shape = [1, 1], elems = [1]\<rparr>"

section \<open>Properties of input validation\<close>

lemma check_input_alt:
  "(check_input d X yo :: 'm error + tensor \<times> tensor option) =
    (if 2 < ndim X then
       Inl (ValueError ''X must have dimensions (data_points,input_dims) with input_dims optional'')
     else if shape (promote X) ! 0 = 0 \<or> shape (promote X) ! 1 = 0 then
       Inl (ValueError ''X must not be empty'')
     else (case yo of
         Some y \<Rightarrow>
           if \<not> y_accepted y then Inl (ValueError ''y must have one dimension (data_points,)'')
           else if shape (promote X) ! 0 \<noteq> shape (promote y) ! 0 then
             Inl (ValueError ''number of data points for X and y must match'')
           else Inr (promote X, Some (promote y))
       | None \<Rightarrow>
           if shape (promote X) ! 1 \<noteq> d then
             Inl (ValueError (''X must have '' @ str_nat d @ '' input dimensions''))
           else Inr (promote X, None)))"
  unfolding check_input_def promote_def y_accepted_def Let_def
  by (cases yo) auto

text \<open>
  C5. \<open>_check_input\<close>: an input of rank 1 comes back with shape \<open>(n, 1)\<close> and the same
  entries; an input of rank above 2, or one that has no rows or no columns once
  promoted, is refused with a \<open>ValueError\<close>; with \<open>y\<close> the call succeeds exactly when,
  besides, \<open>y\<close> has rank at most 2, one column if its rank is 2, and as many rows as
  \<open>X\<close>; without \<open>y\<close> it succeeds exactly when, besides, \<open>X\<close> has \<open>input_dims\<close> columns.
  Every failure is a \<open>ValueError\<close>.
\<close>

theorem check_input_spec:
  fixes X :: tensor and y :: tensor and d :: nat
  shows "(ndim X = 1 \<and> tensor_ok X \<longrightarrow>
            (\<forall>X' r. (check_input d X yo :: 'm error + tensor \<times> tensor option) = Inr (X', r) \<longrightarrow>
               shape X' = [hd (shape X), 1] \<and> elems X' = elems X))
    \<and> (2 < ndim X \<longrightarrow>
          (\<exists>msg. (check_input d X yo :: 'm error + tensor \<times> tensor option) = Inl (ValueError msg)))
    \<and> (ndim X \<le> 2 \<and> (shape (promote X) ! 0 = 0 \<or> shape (promote X) ! 1 = 0) \<longrightarrow>
          (check_input d X yo :: 'm error + tensor \<times> tensor option) = Inl (ValueError ''X must not be empty''))
    \<and> ((\<exists>r. (check_input d X (Some y) :: 'm error + tensor \<times> tensor option) = Inr r) \<longleftrightarrow>
          x_accepted X \<and> y_accepted y \<and> shape (promote X) ! 0 = shape (promote y) ! 0)
    \<and> (x_accepted X \<and> y_accepted y \<and> shape (promote X) ! 0 = shape (promote y) ! 0 \<longrightarrow>
          (check_input d X (Some y) :: 'm error + tensor \<times> tensor option) = Inr (promote X, Some (promote y)))
    \<and> ((\<exists>r. (check_input d X None :: 'm error + tensor \<times> tensor option) = Inr r) \<longleftrightarrow>
          x_accepted X \<and> shape (promote X) ! 1 = d)
    \<and> (x_accepted X \<and> shape (promote X) ! 1 = d \<longrightarrow>
          (check_input d X None :: 'm error + tensor \<times> tensor option) = Inr (promote X, None))
    \<and> (\<forall>e. (check_input d X yo :: 'm error + tensor \<times> tensor option) = Inl e \<longrightarrow> (\<exists>msg. e = ValueError msg))"
proof -
  have rank1: "ndim X = 1 \<and> tensor_ok X \<longrightarrow>
            (\<forall>X' r. (check_input d X yo :: 'm error + tensor \<times> tensor option) = Inr (X', r) \<longrightarrow>
               shape X' = [hd (shape X), 1] \<and> elems X' = elems X)"
  proof (intro impI allI, elim conjE)
    fix X' r
    assume r1: "ndim X = 1" and ok: "tensor_ok X"
      and res: "(check_input d X yo :: 'm error + tensor \<times> tensor option) = Inr (X', r)"
    from r1 obtain n where sh: "shape X = [n]"
      by (cases "shape X") (auto simp: ndim_def)
    with ok have len: "length (elems X) = n" by (simp add: tensor_ok_def)
    from res have "X' = promote X"
      unfolding check_input_alt by (simp split: if_splits option.splits)
    with r1 have "X' = reshape_m1_1 X" by (simp add: promote_def)
    with sh len show "shape X' = [hd (shape X), 1] \<and> elems X' = elems X"
      by (simp add: reshape_m1_1_def)
  qed
  have big: "2 < ndim X \<longrightarrow>
          (\<exists>msg. (check_input d X yo :: 'm error + tensor \<times> tensor option) = Inl (ValueError msg))"
    unfolding check_input_alt by simp
  have empty: "ndim X \<le> 2 \<and> (shape (promote X) ! 0 = 0 \<or> shape (promote X) ! 1 = 0) \<longrightarrow>
          (check_input d X yo :: 'm error + tensor \<times> tensor option) = Inl (ValueError ''X must not be empty'')"
    unfolding check_input_alt by simp
  have train_ok: "x_accepted X \<and> y_accepted y \<and> shape (promote X) ! 0 = shape (promote y) ! 0 \<longrightarrow>
          (check_input d X (Some y) :: 'm error + tensor \<times> tensor option) = Inr (promote X, Some (promote y))"
    unfolding check_input_alt x_accepted_def by simp
  have train_iff: "(\<exists>r. (check_input d X (Some y) :: 'm error + tensor \<times> tensor option) = Inr r) \<longleftrightarrow>
          x_accepted X \<and> y_accepted y \<and> shape (promote X) ! 0 = shape (promote y) ! 0"
    unfolding check_input_alt x_accepted_def by (simp split: if_splits)
  have pred_ok: "x_accepted X \<and> shape (promote X) ! 1 = d \<longrightarrow>
          (check_input d X None :: 'm error + tensor \<times> tensor option) = Inr (promote X, None)"
    unfolding check_input_alt x_accepted_def by simp
  have pred_iff: "(\<exists>r. (check_input d X None :: 'm error + tensor \<times> tensor option) = Inr r) \<longleftrightarrow>
          x_accepted X \<and> shape (promote X) ! 1 = d"
    unfolding check_input_alt x_accepted_def by (simp split: if_splits)
  have errs: "\<forall>e. (check_input d X yo :: 'm error + tensor \<times> tensor option) = Inl e \<longrightarrow> (\<exists>msg. e = ValueError msg)"
    unfolding check_input_alt by (simp split: if_splits option.splits)
  show ?thesis
    by (intro conjI rank1 big empty train_iff train_ok pred_iff pred_ok errs)
qed

theorem check_input_spec_witness:
  "(let X = \<lparr>shape = [3], elems = [0, 1, 2]\<rparr>; y = \<lparr>shape = [3], elems = [1, 2, 3]\<rparr> in
     ndim X = 1 \<and> tensor_ok X \<and> x_accepted X \<and> y_accepted y \<and>
     shape (promote X) ! 0 = shape (promote y) ! 0 \<and> shape (promote X) ! 1 = 1 \<and>
     (check_input 1 X (Some y) :: unit error + tensor \<times> tensor option)
        = Inr (\<lparr>shape = [3, 1], elems = [0, 1, 2]\<rparr>, Some \<lparr>shape = [3, 1], elems = [1, 2, 3]\<rparr>) \<and>
     (check_input 1 X None :: unit error + tensor \<times> tensor option)
        = Inr (\<lparr>shape = [3, 1], elems = [0, 1, 2]\<rparr>, None))
   \<and> (let X = \<lparr>shape = [2, 1, 1], elems = [0, 1]\<rparr> in
        2 < ndim X \<and> (\<exists>msg. (check_input 1 X None :: unit error + tensor \<times> tensor option) = Inl (ValueError msg)))
   \<and> (let X = \<lparr>shape = [0, 2], elems = []\<rparr> in
        ndim X \<le> 2 \<and> shape (promote X) ! 0 = 0 \<and>
        (check_input 2 X None :: unit error + tensor \<times> tensor option) = Inl (ValueError ''X must not be empty''))"
proof -
  let ?X = "\<lparr>shape = [3], elems = [0, 1, 2]\<rparr>"
  let ?y = "\<lparr>shape = [3], elems = [1, 2, 3]\<rparr>"
  let ?B = "\<lparr>shape = [2, 1, 1], elems = [0, 1]\<rparr>"
  let ?E = "\<lparr>shape = [0, 2], elems = []\<rparr>"
  have h: "ndim ?X = 1" "tensor_ok ?X" "x_accepted ?X" "y_accepted ?y"
    "shape (promote ?X) ! 0 = shape (promote ?y) ! 0" "shape (promote ?X) ! 1 = 1"
    "promote ?X = \<lparr>shape = [3, 1], elems = [0, 1, 2]\<rparr>"
    "promote ?y = \<lparr>shape = [3, 1], elems = [1, 2, 3]\<rparr>"
    by (simp_all add: ndim_def tensor_ok_def x_accepted_def y_accepted_def promote_def reshape_m1_1_def)
  have hB: "2 < ndim ?B" by (simp add: ndim_def)
  have hE: "ndim ?E \<le> 2" "shape (promote ?E) ! 0 = 0" by (simp_all add: ndim_def promote_def)
  note a = check_input_spec [where X = ?X and y = ?y and d = 1 and yo = None and 'm = unit]
  note b = check_input_spec [where X = ?B and y = ?y and d = 1 and yo = None and 'm = unit]
  note c = check_input_spec [where X = ?E and y = ?y and d = 2 and yo = None and 'm = unit]
  show ?thesis
    unfolding Let_def using h hB hE a b c by simp
qed

section \<open>Properties of attribute assignment\<close>

lemma assign_all_keeps_parameter:
  "self name = Some (PParameter a) \<Longrightarrow> assign_all self ops name = Some (PParameter a)"
proof (induction ops arbitrary: self)
  case Nil
  then show ?case by simp
next
  case (Cons op ops)
  obtain n v where op: "op = (n, v)" by (cases op)
  have "snd (setattr_model self n v) name = Some (PParameter a)"
    using Cons.prems by (auto simp: setattr_model_def holds_parameter_def)
  then show ?case using Cons.IH op by simp
qed

text \<open>
  C7. \<open>__setattr__\<close>: an assignment to a name that holds a Parameter fails with an
  \<open>AttributeError\<close> and leaves every attribute of the model, the registry \<open>_params\<close>
  among them, as it was; an assignment to any other name succeeds and stores the value;
  and after any sequence of later assignments the name still holds the same Parameter.
\<close>

theorem setattr_parameter_read_only:
  "(self name = Some (PParameter a) \<longrightarrow>
      (\<exists>msg. setattr_model self name val = (Inl (AttributeError msg), self)) \<and>
      snd (setattr_model self name val) ''_params'' = self ''_params'' \<and>
      (\<forall>later. assign_all self later name = Some (PParameter a)))
   \<and> (\<not> holds_parameter self name \<longrightarrow>
        setattr_model self name val = (Inr (), self(name \<mapsto> val)))
   \<and> (holds_parameter self name \<longleftrightarrow> (\<exists>p. self name = Some (PParameter p)))"
proof (intro conjI impI allI)
  assume "self name = Some (PParameter a)"
  then show "\<exists>msg. setattr_model self name val = (Inl (AttributeError msg), self)"
    by (simp add: setattr_model_def holds_parameter_def)
next
  assume "self name = Some (PParameter a)"
  then show "snd (setattr_model self name val) ''_params'' = self ''_params''"
    by (simp add: setattr_model_def holds_parameter_def)
next
  fix later
  assume "self name = Some (PParameter a)"
  then show "assign_all self later name = Some (PParameter a)"
    by (rule assign_all_keeps_parameter)
next
  assume "\<not> holds_parameter self name"
  then show "setattr_model self name val = (Inr (), self(name \<mapsto> val))"
    by (simp add: setattr_model_def)
next
  show "holds_parameter self name \<longleftrightarrow> (\<exists>p. self name = Some (PParameter p))"
    by (auto simp: holds_parameter_def split: option.splits pyval.splits)
qed

theorem setattr_parameter_read_only_witness:
  "(let self = [''Z'' \<mapsto> PParameter 0, ''jitter'' \<mapsto> PNum 1, ''_params'' \<mapsto> PList [PParameter 0]] in
     self ''Z'' = Some (PParameter 0) \<and>
     (\<exists>msg. setattr_model self ''Z'' (PNum 5) = (Inl (AttributeError msg), self)) \<and>
     assign_all self [(''Z'', PNum 5), (''jitter'', PNum 2), (''Z'', PNone)] ''Z'' = Some (PParameter 0) \<and>
     \<not> holds_parameter self ''jitter'' \<and>
     setattr_model self ''jitter'' (PNum 2) = (Inr (), self(''jitter'' \<mapsto> PNum 2)))"
proof -
  let ?self = "[''Z'' \<mapsto> PParameter 0, ''jitter'' \<mapsto> PNum 1, ''_params'' \<mapsto> PList [PParameter 0]]"
  have h1: "?self ''Z'' = Some (PParameter 0)" by simp
  have h2: "\<not> holds_parameter ?self ''jitter''" by (simp add: holds_parameter_def)
  note a = setattr_parameter_read_only [where self = ?self and name = "''Z''" and a = 0 and val = "PNum 5"]
  note b = setattr_parameter_read_only [where self = ?self and name = "''jitter''" and a = 0 and val = "PNum 2"]
  from a h1 have a1: "\<exists>msg. setattr_model ?self ''Z'' (PNum 5) = (Inl (AttributeError msg), ?self)"
    and a2: "assign_all ?self [(''Z'', PNum 5), (''jitter'', PNum 2), (''Z'', PNone)] ''Z'' = Some (PParameter 0)"
    by blast+
  from b h2 have b1: "setattr_model ?self ''jitter'' (PNum 2) = (Inr (), ?self(''jitter'' \<mapsto> PNum 2))"
    by blast
  show ?thesis
    unfolding Let_def using h1 h2 a1 a2 b1 by (intro conjI)
qed

section \<open>Properties of the registry\<close>

lemma foldl_add_sum_list: "foldl (+) (a::real) xs = a + sum_list xs"
  by (induction xs arbitrary: a) simp_all

lemma sum_list_split_filter:
  "sum_list (map (f::'a \<Rightarrow> real) xs) =
     sum_list (map f (filter P xs)) + sum_list (map f (filter (\<lambda>x. \<not> P x) xs))"
  by (induction xs) simp_all

text \<open>
  C3 as the code has it. \<open>log_prior()\<close> is the sum of the log-prior densities of all the
  Parameters of the registry, each contributing zero when it has no prior: the sum over
  the trainable ones plus the sum over the others. It is the sum over the trainable
  Parameters alone when no other Parameter of the registry has a prior.
\<close>

theorem log_prior_all_registered:
  "log_prior st ps = (\<Sum>a\<leftarrow>ps. param_log_prior (st ! a))
   \<and> log_prior st ps =
       (\<Sum>a\<leftarrow>parameters st ps. param_log_prior (st ! a)) +
       (\<Sum>a\<leftarrow>filter (\<lambda>a. \<not> trainable (st ! a)) ps. param_log_prior (st ! a))
   \<and> (prior p = None \<longrightarrow> param_log_prior p = 0)
   \<and> ((\<forall>a \<in> set ps. \<not> trainable (st ! a) \<longrightarrow> prior (st ! a) = None) \<longrightarrow>
        log_prior st ps = (\<Sum>a\<leftarrow>parameters st ps. param_log_prior (st ! a)))"
proof -
  have all: "log_prior st ps = (\<Sum>a\<leftarrow>ps. param_log_prior (st ! a))"
    by (simp add: log_prior_def foldl_add_sum_list)
  have split: "log_prior st ps =
       (\<Sum>a\<leftarrow>parameters st ps. param_log_prior (st ! a)) +
       (\<Sum>a\<leftarrow>filter (\<lambda>a. \<not> trainable (st ! a)) ps. param_log_prior (st ! a))"
    unfolding all parameters_def by (rule sum_list_split_filter)
  have none: "prior p = None \<longrightarrow> param_log_prior p = 0"
    by (simp add: param_log_prior_def)
  have rest: "(\<forall>a \<in> set ps. \<not> trainable (st ! a) \<longrightarrow> prior (st ! a) = None) \<longrightarrow>
        log_prior st ps = (\<Sum>a\<leftarrow>parameters st ps. param_log_prior (st ! a))"
  proof
    assume h: "\<forall>a \<in> set ps. \<not> trainable (st ! a) \<longrightarrow> prior (st ! a) = None"
    have "(\<Sum>a\<leftarrow>filter (\<lambda>a. \<not> trainable (st ! a)) ps. param_log_prior (st ! a)) = 0"
      using h by (induction ps) (simp_all add: param_log_prior_def)
    with split show "log_prior st ps = (\<Sum>a\<leftarrow>parameters st ps. param_log_prior (st ! a))"
      by simp
  qed
  show ?thesis by (intro conjI all split none rest)
qed

theorem log_prior_all_registered_witness:
  "log_prior two_priors [0, 1] = - 5 / 2
   \<and> parameters two_priors [0, 1] = [0]
   \<and> trainable (two_priors ! 0)
   \<and> log_prior two_priors [0] = - 1 / 2"
proof -
  have p: "parameters two_priors [0, 1] = [0]" "parameters two_priors [0] = [0]"
    by (simp_all add: parameters_def two_priors_def Parameter_def)
  have v: "param_log_prior (two_priors ! 0) = - 1 / 2" "param_log_prior (two_priors ! 1) = - 2"
    by (simp_all add: param_log_prior_def two_priors_def Parameter_def half_square_prior_def)
  have h: "\<forall>a \<in> set [0]. \<not> trainable (two_priors ! a) \<longrightarrow> prior (two_priors ! a) = None"
    by (simp add: two_priors_def Parameter_def)
  have a: "log_prior two_priors [0, 1] = - 5 / 2"
    using log_prior_all_registered [of two_priors "[0, 1]"] v by simp
  have b: "log_prior two_priors [0] = - 1 / 2"
    using log_prior_all_registered [of two_priors "[0]"] h p v by simp
  have t: "trainable (two_priors ! 0)"
    by (simp add: two_priors_def Parameter_def)
  show ?thesis by (intro conjI a p(1) t b)
qed

text \<open>
  C3 as the claim has it fails: a Parameter of the registry that is not trainable and
  has a prior contributes its log-prior density. Here the trainable Parameters sum to
  \<open>- 1 / 2\<close> and \<open>log_prior()\<close> is \<open>- 5 / 2\<close>.
\<close>

theorem log_prior_trainable_only_counterexample:
  "\<not> (log_prior two_priors [0, 1] =
        (\<Sum>a\<leftarrow>parameters two_priors [0, 1]. param_log_prior (two_priors ! a)))"
  by (simp add: log_prior_def parameters_def param_log_prior_def two_priors_def Parameter_def
      half_square_prior_def)

section \<open>Properties of \<open>Model._cholesky\<close>\<close>

lemma length_add_jitter_diag:
  "length K = n \<Longrightarrow> length (add_jitter_diag jit K) = n"
  by (simp add: add_jitter_diag_def madd_def diagflat_def nrows_def)

lemma nth_add_jitter_diag:
  assumes "length K = n" "\<forall>r \<in> set K. length r = n" "i < n" "j < n"
  shows "length (add_jitter_diag jit K ! i) = n"
    and "add_jitter_diag jit K ! i ! j = K ! i ! j + (if i = j then jit * vmean (diagonal K) else 0)"
  using assms by (simp_all add: add_jitter_diag_def madd_def diagflat_def nrows_def)

lemma diagonal_square:
  assumes "length K = n" "\<forall>r \<in> set K. length r = n"
  shows "diagonal K = map (\<lambda>i. K ! i ! i) [0..<n]"
  using assms by (cases K) (simp_all add: diagonal_def nrows_def ncols_def)

text \<open>
  C4. \<open>_cholesky(K, add_jitter=True)\<close> on a square matrix factorizes the matrix that has
  \<open>jitter * mean(diag(K))\<close> added to each diagonal entry of \<open>K\<close>, once, and every other
  entry as in \<open>K\<close>. Whatever the factorization of that one matrix answers is the answer
  of \<open>_cholesky\<close>: its factor, or a \<open>CholeskyException\<close> with the message, the matrix that
  was factorized and the model. There is no second factorization with more jitter; the
  same holds without jitter for \<open>K\<close> itself.
\<close>

theorem Model_cholesky_jitter_once:
  assumes "length K = n" and "\<forall>r \<in> set K. length r = n" and "0 < n"
  shows "length (add_jitter_diag (jitter self) K) = n
    \<and> (\<forall>i<n. length (add_jitter_diag (jitter self) K ! i) = n)
    \<and> (\<forall>i<n. \<forall>j<n. add_jitter_diag (jitter self) K ! i ! j =
          K ! i ! j + (if i = j then jitter self * ((\<Sum>k\<leftarrow>[0..<n]. K ! k ! k) / real n) else 0))
    \<and> (\<forall>L. torch_cholesky (add_jitter_diag (jitter self) K) = Inr L \<longrightarrow>
          Model_cholesky self K True = Inr L)
    \<and> (\<forall>msg. torch_cholesky (add_jitter_diag (jitter self) K) = Inl msg \<longrightarrow>
          Model_cholesky self K True = Inl (CholeskyException msg (add_jitter_diag (jitter self) K) self))
    \<and> (\<forall>L. torch_cholesky K = Inr L \<longrightarrow> Model_cholesky self K False = Inr L)
    \<and> (\<forall>msg. torch_cholesky K = Inl msg \<longrightarrow>
          Model_cholesky self K False = Inl (CholeskyException msg K self))"
proof -
  have d: "vmean (diagonal K) = (\<Sum>k\<leftarrow>[0..<n]. K ! k ! k) / real n"
    using diagonal_square [OF assms(1,2)] by (simp add: vmean_def)
  have a: "length (add_jitter_diag (jitter self) K) = n"
    using assms(1) by (rule length_add_jitter_diag)
  have b: "\<forall>i<n. length (add_jitter_diag (jitter self) K ! i) = n"
    using nth_add_jitter_diag(1) [OF assms(1,2)] assms(3) by blast
  have c: "\<forall>i<n. \<forall>j<n. add_jitter_diag (jitter self) K ! i ! j =
          K ! i ! j + (if i = j then jitter self * ((\<Sum>k\<leftarrow>[0..<n]. K ! k ! k) / real n) else 0)"
    using nth_add_jitter_diag(2) [OF assms(1,2)] d by simp
  have e: "\<forall>L. torch_cholesky (add_jitter_diag (jitter self) K) = Inr L \<longrightarrow>
          Model_cholesky self K True = Inr L"
    by (simp add: Model_cholesky_def)
  have f: "\<forall>msg. torch_cholesky (add_jitter_diag (jitter self) K) = Inl msg \<longrightarrow>
          Model_cholesky self K True = Inl (CholeskyException msg (add_jitter_diag (jitter self) K) self)"
    by (simp add: Model_cholesky_def)
  have g: "\<forall>L. torch_cholesky K = Inr L \<longrightarrow> Model_cholesky self K False = Inr L"
    by (simp add: Model_cholesky_def)
  have h: "\<forall>msg. torch_cholesky K = Inl msg \<longrightarrow>
          Model_cholesky self K False = Inl (CholeskyException msg K self)"
    by (simp add: Model_cholesky_def)
  show ?thesis by (intro conjI a b c e f g h)
qed

lemma chol_1221: "torch_cholesky [[1, 2], [2, 1]] = Inl (not_pd_message 2)"
  by (simp add: torch_cholesky_def dot_def numeral_2_eq_2)

lemma jit_1221: "add_jitter_diag 3 [[1, 2], [2, 1]] = [[4, 2], [2, 4]]"
  "add_jitter_diag 0 [[1, 2], [2, 1]] = [[1, 2], [2, 1]]"
  by (simp_all add: add_jitter_diag_def madd_def diagflat_def nrows_def ncols_def diagonal_def vmean_def
      upt_rec [of 0] upt_rec [of 1] numeral_2_eq_2)

lemma chol_4224: "torch_cholesky [[4, 2], [2, 4]] = Inr [[2, 0], [1, sqrt 3]]"
  by (simp add: torch_cholesky_def dot_def)

theorem Model_cholesky_jitter_once_witness:
  "Model_cholesky (base_model 3) [[1, 2], [2, 1]] True = Inr [[2, 0], [1, sqrt 3]]
   \<and> Model_cholesky (base_model 0) [[1, 2], [2, 1]] True
       = Inl (CholeskyException (not_pd_message 2) [[1, 2], [2, 1]] (base_model 0))
   \<and> add_jitter_diag (jitter (base_model 3)) [[1, 2], [2, 1]] ! 0 ! 0 = 1 + 3 * ((1 + 1) / 2)"
proof -
  let ?K = "[[1, 2], [2, 1 :: real]]"
  have sq: "length ?K = 2" "\<forall>r \<in> set ?K. length r = 2" "0 < (2::nat)" by simp_all
  have j3: "jitter (base_model 3) = 3" and j0: "jitter (base_model 0) = 0"
    by (simp_all add: base_model_def)
  note t3 = Model_cholesky_jitter_once [OF sq, of "base_model 3"]
  note t0 = Model_cholesky_jitter_once [OF sq, of "base_model 0"]
  have a: "Model_cholesky (base_model 3) ?K True = Inr [[2, 0], [1, sqrt 3]]"
    using t3 chol_4224 jit_1221(1) unfolding j3 by simp
  have b: "Model_cholesky (base_model 0) ?K True
       = Inl (CholeskyException (not_pd_message 2) ?K (base_model 0))"
    using t0 chol_1221 jit_1221(2) unfolding j0 by simp
  have c: "add_jitter_diag (jitter (base_model 3)) ?K ! 0 ! 0 = 1 + 3 * ((1 + 1) / 2)"
    unfolding j3 jit_1221 by simp
  show ?thesis by (intro conjI a b c)
qed

section \<open>Properties of the constructors and of \<open>Exact.predict\<close>\<close>

lemma register_length:
  "length (fst (register_parameters v nm s)) = length (fst s)"
  "length (fst (register_list vs i nm s)) = length (fst s)"
  "length (fst (register_values vs n s)) = length (fst s)"
  by (induction v nm s and vs i nm s and vs n s
      rule: register_parameters_register_list_register_values.induct)
     (simp_all add: Let_def)

lemma Model_init_store_length:
  assumes "(Model_init kern X0 y0 lik jit mn nm dt st :: 'm error + model \<times> store) = Inr (m, st')"
  shows "length st' = length st \<and> likelihood m = lik \<and> kernel m = kern \<and> mean m = mn"
  using assms
  by (auto simp: Model_init_def Let_def register_length
      split: if_splits sum.splits prod.splits option.splits)








lemma Model_init_fields:
  assumes "(Model_init kern X0 y0 lik jit mn nm dt st :: 'm error + model \<times> store) = Inr (m, st')"
  shows "data_X m = promote X0" "data_y m = promote y0" "input_dims m = shape (promote X0) ! 1"
    "jitter m = (if dt = float32 then max jit (1 / 10 ^ 6)
                 else if dt = float64 then max jit (1 / 10 ^ 15) else jit)"
    "x_accepted X0" "y_accepted y0" "shape (promote X0) ! 0 = shape (promote y0) ! 0"
    "model_name m = nm"
  using assms unfolding Model_init_def check_input_alt
  by (auto simp: Let_def x_accepted_def split: if_splits sum.splits prod.splits option.splits)




lemma ex_accept: "x_accepted X01" "y_accepted y13" "promote X01 = \<lparr>shape = [2, 1], elems = [0, 1]\<rparr>"
  "promote y13 = \<lparr>shape = [2, 1], elems = [1, 3]\<rparr>"
  by (simp_all add: x_accepted_def y_accepted_def promote_def X01_def y13_def ndim_def reshape_m1_1_def)

lemma ex_ndim: "ndim X01 = 1" "ndim var32 = 2" "shape var32 = [2, 1]" "shape X01 = [2]"
  "elems var32 = [3, 2]"
  by (simp_all add: X01_def var32_def ndim_def)

lemma ex_Model_init:
  "validate_y lik (promote y13) (promote X01) = None \<Longrightarrow> \<not> derives_MultiOutputLikelihood lik \<Longrightarrow>
   \<exists>m st'. (Model_init lin_kernel X01 y13 lik jit None nm dt st :: 'm error + model \<times> store) = Inr (m, st')"
  unfolding Model_init_def check_input_alt
  by (simp add: ex_accept ex_ndim Let_def lin_kernel_def)








section \<open>Properties of \<open>Snelson.predict\<close>\<close>



















section \<open>Properties of \<open>SparseHensman\<close> and \<open>Hensman\<close>\<close>

lemma register_param_snd:
  "snd (register_parameters (PParameter a) nm (st, ps)) = ps @ [a]"
  by (simp add: Let_def)

lemma register_param_keeps:
  "pvalue (fst (register_parameters (PParameter a) nm s) ! b) = pvalue (fst s ! b)"
  "trainable (fst (register_parameters (PParameter a) nm s) ! b) = trainable (fst s ! b)"
  "length (fst (register_parameters (PParameter a) nm s)) = length (fst s)"
  by (cases s; cases "a < length (fst s)"; cases "b = a"; simp add: Let_def list_update_beyond)+

lemma SparseHensman_init_None:
  assumes "(SparseHensman_init kern X0 y0 None lik jit mn nm dt st :: 'm error + sparse_hensman \<times> store)
             = Inr (m, st')"
  shows "\<exists>m0 st1. (Model_init kern X0 y0 lik jit mn nm dt st :: 'm error + model \<times> store) = Inr (m0, st1)
     \<and> \<not> is_sparse m
     \<and> q_mu m = length st \<and> q_sqrt m = Suc (length st) \<and> Z_attr m = Suc (Suc (length st))
     \<and> length st' = length st + 3
     \<and> params m = params m0 @ [length st, Suc (length st)]
     \<and> data_X m = data_X m0 \<and> data_y m = data_y m0 \<and> kernel m = kern \<and> likelihood m = lik
     \<and> mean m = mn \<and> jitter m = jitter m0 \<and> input_dims m = input_dims m0 \<and> model_name m = nm
     \<and> eye_attr m = eye (shape (data_X m0) ! 0)
     \<and> pvalue (st' ! q_mu m) = zeros_n_1 (shape (data_X m0) ! 0)
     \<and> pvalue (st' ! q_sqrt m) = eye_tensor (shape (data_X m0) ! 0)
     \<and> pvalue (st' ! Z_attr m) = data_X m0
     \<and> \<not> trainable (st' ! Z_attr m)
     \<and> (\<forall>a < length st. pvalue (st' ! a) = pvalue (st1 ! a) \<and> trainable (st' ! a) = trainable (st1 ! a))"
proof -
  from assms obtain m0 st1 where
    mi: "(Model_init kern X0 y0 lik jit mn nm dt st :: 'm error + model \<times> store) = Inr (m0, st1)"
    by (auto simp: SparseHensman_init_def split: sum.splits)
  note f = Model_init_store_length [OF mi] Model_init_fields [OF mi]
  have l1: "length st1 = length st" using f by simp
  let ?n = "shape (data_X m0) ! 0"
  let ?pm = "Parameter (zeros_n_1 ?n) (Some ''q_mu'') None True"
  let ?ps = "(Parameter (eye_tensor ?n) (Some ''q_sqrt'') None True)\<lparr>num_parameters := (?n * ?n + ?n) div 2\<rparr>"
  let ?pz = "Parameter (data_X m0) None None False"
  let ?st4 = "st1 @ [?pm, ?ps, ?pz]"
  let ?s1 = "register_parameters (PParameter (length st)) None (?st4, params m0)"
  let ?s2 = "register_parameters (PParameter (Suc (length st))) None ?s1"
  from assms mi have m: "m = sparse_model.extend
                       (gp_model.extend
                          (model.extend (m0\<lparr>params := snd ?s2\<rparr>)
                             (gp_model.fields (eye ?n) (0.5 * real ?n * ln (2 * pi))))
                          (sparse_model.fields (Suc (Suc (length st)))))
                       (sparse_hensman.fields False (length st) (Suc (length st)))"
    and s: "st' = fst ?s2"
    by (simp_all add: SparseHensman_init_def alloc_def l1 Let_def del: register_parameters.simps)
  have fields: "\<not> is_sparse m" "q_mu m = length st" "q_sqrt m = Suc (length st)"
    "Z_attr m = Suc (Suc (length st))" "params m = snd ?s2" "data_X m = data_X m0" "data_y m = data_y m0"
    "kernel m = kernel m0" "likelihood m = likelihood m0" "mean m = mean m0" "jitter m = jitter m0"
    "input_dims m = input_dims m0" "model_name m = model_name m0" "eye_attr m = eye ?n"
    unfolding m
    by (simp_all add: sparse_model.extend_def gp_model.extend_def model.extend_def
        gp_model.fields_def sparse_model.fields_def sparse_hensman.fields_def
        del: register_parameters.simps)
  have ps: "snd ?s2 = params m0 @ [length st, Suc (length st)]"
    by (simp add: Let_def)
  have len: "length st' = length st + 3"
    unfolding s by (simp add: register_param_keeps l1 del: register_parameters.simps)
  have pv: "pvalue (st' ! b) = pvalue (?st4 ! b)" "trainable (st' ! b) = trainable (?st4 ! b)" for b
    unfolding s by (simp_all add: register_param_keeps del: register_parameters.simps)
  have v1: "pvalue (st' ! length st) = zeros_n_1 ?n"
    unfolding pv using l1 by (simp add: nth_append Parameter_def)
  have v2: "pvalue (st' ! Suc (length st)) = eye_tensor ?n"
    unfolding pv using l1 by (simp add: nth_append Parameter_def)
  have v3: "pvalue (st' ! Suc (Suc (length st))) = data_X m0"
    "\<not> trainable (st' ! Suc (Suc (length st)))"
    unfolding pv using l1 by (simp_all add: nth_append Parameter_def)
  have old: "\<forall>a < length st. pvalue (st' ! a) = pvalue (st1 ! a) \<and> trainable (st' ! a) = trainable (st1 ! a)"
    unfolding pv using l1 by (simp add: nth_append)
  show ?thesis
    using mi fields ps len v1 v2 v3 old f by (intro exI [of _ m0] exI [of _ st1]) simp
qed


lemma Model_init_name:
  assumes "(Model_init kern X0 y0 lik jit mn nm dt st :: 'm error + model \<times> store) = Inr (m0, st1)"
  shows "(Model_init kern X0 y0 lik jit mn nm' dt st :: 'm error + model \<times> store)
           = Inr (m0\<lparr>model_name := nm'\<rparr>, st1)"
  using assms unfolding Model_init_def
  by (auto simp: Let_def split: if_splits sum.splits prod.splits option.splits)

lemma SparseHensman_init_name:
  assumes "(SparseHensman_init kern X0 y0 Z0 lik jit mn nm dt st :: 'm error + sparse_hensman \<times> store)
             = Inr (m, st')"
  shows "(SparseHensman_init kern X0 y0 Z0 lik jit mn nm' dt st :: 'm error + sparse_hensman \<times> store)
             = Inr (m\<lparr>model_name := nm'\<rparr>, st')"
proof -
  from assms obtain m0 st1 where
    mi: "(Model_init kern X0 y0 lik jit mn nm dt st :: 'm error + model \<times> store) = Inr (m0, st1)"
    by (auto simp: SparseHensman_init_def split: sum.splits)
  note mi' = Model_init_name [OF mi, of nm']
  show ?thesis
    using assms unfolding SparseHensman_init_def mi mi'
    by (auto simp: Let_def sparse_model.extend_def gp_model.extend_def model.extend_def
        gp_model.fields_def sparse_model.fields_def sparse_hensman.fields_def
        split: if_splits sum.splits prod.splits option.splits
        simp del: register_parameters.simps)
qed

lemma Model_cholesky_name:
  "Model_cholesky (self\<lparr>model_name := nm'\<rparr>) K aj = Inr L \<longleftrightarrow> Model_cholesky self K aj = Inr L"
  by (simp add: Model_cholesky_def Let_def split: sum.splits)


lemma centred_y_name: "centred_y (self\<lparr>model_name := nm'\<rparr>) = centred_y self"
  by (simp add: centred_y_def split: option.splits)

lemma predict_inner_name:
  "SparseHensman_predict_inner (self\<lparr>model_name := nm'\<rparr>) st Xs full = Inr r
     \<longleftrightarrow> SparseHensman_predict_inner self st Xs full = Inr r"
  unfolding SparseHensman_predict_inner_def Model_cholesky_def
  by (simp add: Let_def split: sum.splits)

lemma predict_inner_name_Inl:
  "(\<exists>e. SparseHensman_predict_inner (self\<lparr>model_name := nm'\<rparr>) st Xs full = Inl e)
     \<longleftrightarrow> (\<exists>e. SparseHensman_predict_inner self st Xs full = Inl e)"
  unfolding SparseHensman_predict_inner_def Model_cholesky_def
  by (simp add: Let_def split: sum.splits)

lemma elbo_name:
  "SparseHensman_elbo (self\<lparr>model_name := nm'\<rparr>) st = Inr v \<longleftrightarrow> SparseHensman_elbo self st = Inr v"
proof (cases "is_sparse self")
  case True
  show ?thesis
  proof (cases "SparseHensman_predict_inner self st (data_X self) False")
    case (Inl e)
    with predict_inner_name_Inl [where self = self and nm' = nm' and st = st and Xs = "data_X self" and full = False]
    obtain e' where "SparseHensman_predict_inner (self\<lparr>model_name := nm'\<rparr>) st (data_X self) False = Inl e'"
      by blast
    with Inl True show ?thesis by (simp add: SparseHensman_elbo_def Let_def)
  next
    case (Inr r)
    with predict_inner_name [where self = self and nm' = nm' and st = st and Xs = "data_X self" and full = False and r = r]
    have "SparseHensman_predict_inner (self\<lparr>model_name := nm'\<rparr>) st (data_X self) False = Inr r"
      by simp
    with Inr True show ?thesis
      by (simp add: SparseHensman_elbo_def Let_def centred_y_name split: prod.splits)
  qed
next
  case False
  then show ?thesis
    unfolding SparseHensman_elbo_def Model_cholesky_def
    by (simp add: Let_def centred_y_name split: sum.splits cong: option.case_cong)
qed

lemma predict_name:
  "SparseHensman_predict (self\<lparr>model_name := nm'\<rparr>) st Xs full py = Inr r
     \<longleftrightarrow> SparseHensman_predict self st Xs full py = Inr r"
proof (cases "check_input (input_dims self) Xs None :: 'a sparse_hensman_scheme error + tensor \<times> tensor option")
  case (Inl e)
  then show ?thesis
    by (simp add: SparseHensman_predict_def)
next
  case (Inr p)
  obtain Xs' o' where p: "p = (Xs', o')" by (cases p)
  from Inr p have c: "(check_input (input_dims self) Xs None :: 'a sparse_hensman_scheme error + tensor \<times> tensor option) = Inr (Xs', o')"
    by simp
  then have c': "(check_input (input_dims self) Xs None :: 'a sparse_hensman_scheme error + tensor \<times> tensor option) = Inr (Xs', o')"
    by simp
  show ?thesis
  proof (cases "SparseHensman_predict_inner self st Xs' full")
    case (Inl e)
    with predict_inner_name_Inl [where self = self and nm' = nm' and st = st and Xs = Xs' and full = full]
    obtain e' where "SparseHensman_predict_inner (self\<lparr>model_name := nm'\<rparr>) st Xs' full = Inl e'"
      by blast
    with Inl c show ?thesis by (simp add: SparseHensman_predict_def)
  next
    case (Inr q)
    with predict_inner_name [where self = self and nm' = nm' and st = st and Xs = Xs' and full = full and r = q]
    have "SparseHensman_predict_inner (self\<lparr>model_name := nm'\<rparr>) st Xs' full = Inr q" by simp
    with Inr c show ?thesis
      by (simp add: SparseHensman_predict_def Let_def split: prod.splits cong: option.case_cong)
  qed
qed

lemma elbo_nonsparse: "\<not> is_sparse self \<Longrightarrow> SparseHensman_elbo self st = nonsparse_elbo self st"
  unfolding SparseHensman_elbo_def nonsparse_elbo_def
  by (simp add: Let_def split: sum.splits)


lemma SparseHensman_init_None_m:
  assumes "(SparseHensman_init kern X0 y0 None lik jit mn nm dt st :: 'm error + sparse_hensman \<times> store)
             = Inr (m, st')"
  shows "\<not> is_sparse m" "pvalue (st' ! Z_attr m) = data_X m" "\<not> trainable (st' ! Z_attr m)"
    "eye_attr m = eye (shape (data_X m) ! 0)"
    "pvalue (st' ! q_mu m) = zeros_n_1 (shape (data_X m) ! 0)"
    "pvalue (st' ! q_sqrt m) = eye_tensor (shape (data_X m) ! 0)"
    "data_X m = promote X0" "kernel m = kern" "likelihood m = lik" "mean m = mn" "model_name m = nm"
    "q_mu m = length st" "q_sqrt m = Suc (length st)" "Z_attr m = Suc (Suc (length st))"
    "length st' = length st + 3"
proof -
  from SparseHensman_init_None [OF assms] obtain m0 st1 where
    mi: "(Model_init kern X0 y0 lik jit mn nm dt st :: 'm error + model \<times> store) = Inr (m0, st1)"
    and r: "\<not> is_sparse m
     \<and> q_mu m = length st \<and> q_sqrt m = Suc (length st) \<and> Z_attr m = Suc (Suc (length st))
     \<and> length st' = length st + 3
     \<and> params m = params m0 @ [length st, Suc (length st)]
     \<and> data_X m = data_X m0 \<and> data_y m = data_y m0 \<and> kernel m = kern \<and> likelihood m = lik
     \<and> mean m = mn \<and> jitter m = jitter m0 \<and> input_dims m = input_dims m0 \<and> model_name m = nm
     \<and> eye_attr m = eye (shape (data_X m0) ! 0)
     \<and> pvalue (st' ! q_mu m) = zeros_n_1 (shape (data_X m0) ! 0)
     \<and> pvalue (st' ! q_sqrt m) = eye_tensor (shape (data_X m0) ! 0)
     \<and> pvalue (st' ! Z_attr m) = data_X m0
     \<and> \<not> trainable (st' ! Z_attr m)"
    by (elim exE conjE) (intro that conjI; assumption)
  note f = Model_init_fields(1) [OF mi]
  from r f show "\<not> is_sparse m" "pvalue (st' ! Z_attr m) = data_X m" "\<not> trainable (st' ! Z_attr m)"
    "eye_attr m = eye (shape (data_X m) ! 0)"
    "pvalue (st' ! q_mu m) = zeros_n_1 (shape (data_X m) ! 0)"
    "pvalue (st' ! q_sqrt m) = eye_tensor (shape (data_X m) ! 0)"
    "data_X m = promote X0" "kernel m = kern" "likelihood m = lik" "mean m = mn" "model_name m = nm"
    "q_mu m = length st" "q_sqrt m = Suc (length st)" "Z_attr m = Suc (Suc (length st))"
    "length st' = length st + 3"
    by auto
qed

text \<open>
  C9. \<open>Hensman(kernel, X, y, likelihood, jitter, mean, name)\<close> is
  \<open>SparseHensman(kernel, X, y, None, likelihood, jitter, mean, name)\<close>. The model it makes
  is not sparse, its \<open>Z\<close> is a Parameter that is not trainable and holds \<open>X\<close>, and \<open>eye\<close>,
  \<open>q_mu\<close> and \<open>q_sqrt\<close> have the size of the data. \<open>SparseHensman\<close> with \<open>Z=None\<close> and any
  other name makes the same model and store but for the name, on which neither the
  value of \<open>elbo()\<close> nor that of \<open>predict()\<close> depends; and \<open>elbo()\<close> is the branch of
  \<open>SparseHensman.elbo()\<close> for a model that is not sparse.
\<close>

theorem Hensman_is_SparseHensman_without_Z:
  fixes m :: sparse_hensman
  shows
  "(Hensman_init kern X0 y0 lik jit mn nm dt st :: unit error + sparse_hensman \<times> store)
      = SparseHensman_init kern X0 y0 None lik jit mn nm dt st
   \<and> ((Hensman_init kern X0 y0 lik jit mn nm dt st :: unit error + sparse_hensman \<times> store) = Inr (m, st') \<longrightarrow>
        \<not> is_sparse m
        \<and> pvalue (st' ! Z_attr m) = data_X m \<and> \<not> trainable (st' ! Z_attr m)
        \<and> eye_attr m = eye (shape (data_X m) ! 0)
        \<and> pvalue (st' ! q_mu m) = zeros_n_1 (shape (data_X m) ! 0)
        \<and> pvalue (st' ! q_sqrt m) = eye_tensor (shape (data_X m) ! 0)
        \<and> (SparseHensman_init kern X0 y0 None lik jit mn nm' dt st :: unit error + sparse_hensman \<times> store)
             = Inr (m\<lparr>model_name := nm'\<rparr>, st')
        \<and> (\<forall>v. SparseHensman_elbo (m\<lparr>model_name := nm'\<rparr>) st' = Inr v \<longleftrightarrow> SparseHensman_elbo m st' = Inr v)
        \<and> (\<forall>Xs full py r. SparseHensman_predict (m\<lparr>model_name := nm'\<rparr>) st' Xs full py = Inr r
               \<longleftrightarrow> SparseHensman_predict m st' Xs full py = Inr r)
        \<and> SparseHensman_elbo m st' = nonsparse_elbo m st')"
proof (intro conjI impI)
  show "(Hensman_init kern X0 y0 lik jit mn nm dt st :: unit error + sparse_hensman \<times> store)
      = SparseHensman_init kern X0 y0 None lik jit mn nm dt st"
    by (simp add: Hensman_init_def)
next
  assume "(Hensman_init kern X0 y0 lik jit mn nm dt st :: unit error + sparse_hensman \<times> store) = Inr (m, st')"
  then have i: "(SparseHensman_init kern X0 y0 None lik jit mn nm dt st :: unit error + sparse_hensman \<times> store) = Inr (m, st')"
    by (simp add: Hensman_init_def)
  note f = SparseHensman_init_None_m [OF i]
  show "\<not> is_sparse m" by (rule f)
  show "pvalue (st' ! Z_attr m) = data_X m" by (rule f)
  show "\<not> trainable (st' ! Z_attr m)" by (rule f)
  show "eye_attr m = eye (shape (data_X m) ! 0)" by (rule f)
  show "pvalue (st' ! q_mu m) = zeros_n_1 (shape (data_X m) ! 0)" by (rule f)
  show "pvalue (st' ! q_sqrt m) = eye_tensor (shape (data_X m) ! 0)" by (rule f)
  show "(SparseHensman_init kern X0 y0 None lik jit mn nm' dt st :: unit error + sparse_hensman \<times> store)
             = Inr (m\<lparr>model_name := nm'\<rparr>, st')"
    using i by (rule SparseHensman_init_name)
  show "\<forall>v. SparseHensman_elbo (m\<lparr>model_name := nm'\<rparr>) st' = Inr v \<longleftrightarrow> SparseHensman_elbo m st' = Inr v"
    using elbo_name by blast
  show "\<forall>Xs full py r. SparseHensman_predict (m\<lparr>model_name := nm'\<rparr>) st' Xs full py = Inr r
               \<longleftrightarrow> SparseHensman_predict m st' Xs full py = Inr r"
    using predict_name by blast
  show "SparseHensman_elbo m st' = nonsparse_elbo m st'"
    using f(1) by (rule elbo_nonsparse)
qed

lemma gauss_lik_ok: "validate_y gauss_lik y X = None" "\<not> derives_MultiOutputLikelihood gauss_lik"
  "lik_obj gauss_lik = PModule ''GaussianLikelihood'' [PStr ''GaussianLikelihood'', PParameter 1]"
  "length store1 = 2" "scale gauss_lik = 1"
  by (simp_all add: gauss_lik_def store1_def GaussianLikelihood_def alloc_def store0_def Let_def)

lemma ex_Hensman_init:
  "\<exists>m st'. (Hensman_init lin_kernel X01 y13 gauss_lik 0 None Hensman_default_name other_dtype store1
      :: unit error + sparse_hensman \<times> store) = Inr (m, st')"
proof -
  from ex_Model_init [OF gauss_lik_ok(1,2)] obtain m0 st1 where
    "(Model_init lin_kernel X01 y13 gauss_lik 0 None Hensman_default_name other_dtype store1
        :: unit error + model \<times> store) = Inr (m0, st1)"
    by blast
  then show ?thesis
    by (simp add: Hensman_init_def SparseHensman_init_def Let_def split: prod.splits
        del: register_parameters.simps)
qed

theorem Hensman_is_SparseHensman_without_Z_witness:
  "\<exists>m st'. (Hensman_init lin_kernel X01 y13 gauss_lik 0 None Hensman_default_name other_dtype store1
                :: unit error + sparse_hensman \<times> store) = Inr (m, st')
     \<and> (SparseHensman_init lin_kernel X01 y13 None gauss_lik 0 None SparseHensman_default_name other_dtype store1
                :: unit error + sparse_hensman \<times> store) = Inr (m\<lparr>model_name := SparseHensman_default_name\<rparr>, st')
     \<and> \<not> is_sparse m \<and> pvalue (st' ! Z_attr m) = promote X01 \<and> eye_attr m = eye 2
     \<and> SparseHensman_elbo m st' = nonsparse_elbo m st'"
proof -
  from ex_Hensman_init obtain m st' where
    i: "(Hensman_init lin_kernel X01 y13 gauss_lik 0 None Hensman_default_name other_dtype store1
                :: unit error + sparse_hensman \<times> store) = Inr (m, st')" by blast
  note t = Hensman_is_SparseHensman_without_Z
    [where m = m and st' = st' and kern = lin_kernel and ?X0.0 = X01 and ?y0.0 = y13 and lik = gauss_lik
      and jit = 0 and mn = None and nm = Hensman_default_name and dt = other_dtype and st = store1
      and nm' = SparseHensman_default_name]
  from i have j: "(SparseHensman_init lin_kernel X01 y13 None gauss_lik 0 None Hensman_default_name other_dtype store1
                :: unit error + sparse_hensman \<times> store) = Inr (m, st')"
    by (simp add: Hensman_init_def)
  have X: "data_X m = promote X01" by (rule SparseHensman_init_None_m(7) [OF j])
  have n: "shape (data_X m) ! 0 = 2" unfolding X by (simp add: ex_accept)
  have a: "(SparseHensman_init lin_kernel X01 y13 None gauss_lik 0 None SparseHensman_default_name other_dtype store1
                :: unit error + sparse_hensman \<times> store) = Inr (m\<lparr>model_name := SparseHensman_default_name\<rparr>, st')"
    using t i by blast
  have b: "\<not> is_sparse m" using t i by blast
  have c: "pvalue (st' ! Z_attr m) = promote X01" using t i X by simp
  have d: "eye_attr m = eye 2" using t i n by simp
  have e: "SparseHensman_elbo m st' = nonsparse_elbo m st'" using t i by blast
  show ?thesis using i a b c d e by blast
qed

section \<open>The registry of \<open>SparseHensman\<close>\<close>

lemma register_addrs:
  "set (snd (register_parameters v nm s)) = set (snd s) \<union> param_addrs v"
  "set (snd (register_list vs i nm s)) = set (snd s) \<union> (\<Union>v \<in> set vs. param_addrs v)"
  "set (snd (register_values vs n s)) = set (snd s) \<union> (\<Union>v \<in> set vs. param_addrs v)"
  by (induction v nm s and vs i nm s and vs n s
      rule: register_parameters_register_list_register_values.induct)
     (auto simp: Let_def)

lemma Model_init_params:
  assumes "(Model_init kern X0 y0 lik jit mn nm dt st :: 'm error + model \<times> store) = Inr (m, st')"
  shows "set (params m) = param_addrs (kernel_obj kern) \<union> param_addrs (lik_obj lik)
           \<union> (case mn of None \<Rightarrow> {} | Some f \<Rightarrow> param_addrs (mean_obj f))"
  using assms unfolding Model_init_def
  by (auto simp: Let_def register_addrs split: if_splits sum.splits prod.splits option.splits)

lemma SparseHensman_init_registry:
  assumes "(SparseHensman_init kern X0 y0 Z0 lik jit mn nm dt st :: 'm error + sparse_hensman \<times> store)
             = Inr (m, st')"
  shows "\<exists>m0 st1. (Model_init kern X0 y0 lik jit mn nm dt st :: 'm error + model \<times> store) = Inr (m0, st1)
     \<and> is_sparse m = (Z0 \<noteq> None)
     \<and> q_mu m = length st \<and> q_sqrt m = Suc (length st) \<and> Z_attr m = Suc (Suc (length st))
     \<and> params m = params m0 @ [length st, Suc (length st)] @ (if Z0 \<noteq> None then [Suc (Suc (length st))] else [])
     \<and> trainable (st' ! Suc (Suc (length st))) = (Z0 \<noteq> None)"
proof -
  from assms obtain m0 st1 where
    mi: "(Model_init kern X0 y0 lik jit mn nm dt st :: 'm error + model \<times> store) = Inr (m0, st1)"
    by (auto simp: SparseHensman_init_def split: sum.splits)
  have l1: "length st1 = length st" using Model_init_store_length [OF mi] by simp
  show ?thesis
  proof (cases Z0)
    case None
    from SparseHensman_init_None [OF assms [unfolded None]] mi None show ?thesis
      by auto
  next
    case (Some z)
    from assms mi Some obtain Z1 Z r where
      z1: "(init_inducing_points z (data_X m0) kern :: 'm error + tensor) = Inr Z1"
      and ck: "(check_input (input_dims m0) Z1 None :: 'm error + tensor \<times> tensor option) = Inr (Z, r)"
      by (auto simp: SparseHensman_init_def split: sum.splits prod.splits)
    let ?n = "shape Z ! 0"
    let ?pm = "Parameter (zeros_n_1 ?n) (Some ''q_mu'') None True"
    let ?ps = "(Parameter (eye_tensor ?n) (Some ''q_sqrt'') None True)\<lparr>num_parameters := (?n * ?n + ?n) div 2\<rparr>"
    let ?p0 = "Parameter Z (Some ''induction_points'') None True"
    let ?pz = "if 1 < output_dims kern then ?p0\<lparr>num_parameters := num_parameters ?p0 - shape Z ! 0\<rparr> else ?p0"
    let ?st4 = "st1 @ [?pm, ?ps, ?pz]"
    let ?s1 = "register_parameters (PParameter (length st)) None (?st4, params m0)"
    let ?s2 = "register_parameters (PParameter (Suc (length st))) None ?s1"
    let ?s3 = "register_parameters (PParameter (Suc (Suc (length st)))) None ?s2"
    from assms have m: "m = sparse_model.extend
                       (gp_model.extend
                          (model.extend (m0\<lparr>params := snd ?s3\<rparr>)
                             (gp_model.fields (eye ?n) (0.5 * real (shape (data_X m0) ! 0) * ln (2 * pi))))
                          (sparse_model.fields (Suc (Suc (length st)))))
                       (sparse_hensman.fields True (length st) (Suc (length st)))"
      and s: "st' = fst ?s3"
      unfolding SparseHensman_init_def mi Some
      by (simp_all add: z1 ck alloc_def l1 Let_def del: register_parameters.simps)
    have fields: "is_sparse m" "q_mu m = length st" "q_sqrt m = Suc (length st)"
      "Z_attr m = Suc (Suc (length st))" "params m = snd ?s3"
      unfolding m
      by (simp_all add: sparse_model.extend_def gp_model.extend_def model.extend_def
          gp_model.fields_def sparse_model.fields_def sparse_hensman.fields_def
          del: register_parameters.simps)
    have ps: "snd ?s3 = params m0 @ [length st, Suc (length st), Suc (Suc (length st))]"
      by (simp add: Let_def)
    have tr: "trainable (st' ! Suc (Suc (length st)))"
      unfolding s using l1
      by (simp add: register_param_keeps nth_append Parameter_def del: register_parameters.simps)
    show ?thesis using mi Some fields ps tr by simp
  qed
qed


text \<open>
  C10. In a model that \<open>SparseHensman.__init__\<close> has made from objects whose Parameters
  exist in the store, \<open>is_sparse\<close> tells whether inducing points were given; \<open>q_mu\<close> and
  \<open>q_sqrt\<close> are in the registry in every case; and \<open>Z\<close> is in the registry, and among the
  trainable parameters that \<open>parameters()\<close> yields, if and only if the model is sparse.
  With \<open>Z=None\<close> the Parameter \<open>Z\<close> is not trainable and holds \<open>X\<close>, and the table of
  \<open>print_parameters()\<close>, which has one row for the header and one for each Parameter of the
  registry, is the table of the registry without \<open>Z\<close>.
\<close>

theorem SparseHensman_registers_Z_iff_sparse:
  fixes m :: sparse_hensman
  assumes init: "(SparseHensman_init kern X0 y0 Z0 lik jit mn nm dt st :: unit error + sparse_hensman \<times> store)
             = Inr (m, st')"
    and wf: "\<forall>a \<in> param_addrs (kernel_obj kern) \<union> param_addrs (lik_obj lik)
                 \<union> (case mn of None \<Rightarrow> {} | Some f \<Rightarrow> param_addrs (mean_obj f)). a < length st"
  shows "is_sparse m = (Z0 \<noteq> None)
    \<and> q_mu m \<in> set (get_parameters (params m)) \<and> q_sqrt m \<in> set (get_parameters (params m))
    \<and> (Z_attr m \<in> set (get_parameters (params m)) \<longleftrightarrow> is_sparse m)
    \<and> (Z_attr m \<in> set (parameters st' (params m)) \<longleftrightarrow> is_sparse m)
    \<and> (Z0 = None \<longrightarrow>
          \<not> trainable (st' ! Z_attr m) \<and> pvalue (st' ! Z_attr m) = data_X m
          \<and> parameter_rows fmt st' (params m)
              = parameter_rows fmt st' (filter (\<lambda>a. a \<noteq> Z_attr m) (params m)))
    \<and> length (parameter_rows fmt st' (params m)) = Suc (length (params m))"
proof -
  from SparseHensman_init_registry [OF init] obtain m0 st1 where
    mi: "(Model_init kern X0 y0 lik jit mn nm dt st :: unit error + model \<times> store) = Inr (m0, st1)"
    and sp: "is_sparse m = (Z0 \<noteq> None)"
    and a: "q_mu m = length st" "q_sqrt m = Suc (length st)" "Z_attr m = Suc (Suc (length st))"
    and ps: "params m = params m0 @ [length st, Suc (length st)] @ (if Z0 \<noteq> None then [Suc (Suc (length st))] else [])"
    and tr: "trainable (st' ! Suc (Suc (length st))) = (Z0 \<noteq> None)"
    by (elim exE conjE) (rule that; assumption)
  have old: "\<forall>b \<in> set (params m0). b < length st"
    using wf unfolding Model_init_params [OF mi] .
  then have notin: "Suc (Suc (length st)) \<notin> set (params m0)" by auto
  have z: "Z_attr m \<in> set (params m) \<longleftrightarrow> is_sparse m"
    unfolding ps a sp using notin by simp
  have zt: "Z_attr m \<in> set (parameters st' (params m)) \<longleftrightarrow> is_sparse m"
    unfolding parameters_def using z tr sp a by auto
  have none: "Z0 = None \<longrightarrow>
          \<not> trainable (st' ! Z_attr m) \<and> pvalue (st' ! Z_attr m) = data_X m
          \<and> parameter_rows fmt st' (params m)
              = parameter_rows fmt st' (filter (\<lambda>a. a \<noteq> Z_attr m) (params m))"
  proof
    assume n: "Z0 = None"
    note f = SparseHensman_init_None_m [OF init [unfolded n]]
    have "filter (\<lambda>a. a \<noteq> Z_attr m) (params m) = params m"
      using z sp n by (auto simp: filter_id_conv)
    with f show "\<not> trainable (st' ! Z_attr m) \<and> pvalue (st' ! Z_attr m) = data_X m
          \<and> parameter_rows fmt st' (params m)
              = parameter_rows fmt st' (filter (\<lambda>a. a \<noteq> Z_attr m) (params m))"
      by simp
  qed
  have q: "q_mu m \<in> set (get_parameters (params m))" "q_sqrt m \<in> set (get_parameters (params m))"
    unfolding get_parameters_def ps a by simp_all
  have len: "length (parameter_rows fmt st' (params m)) = Suc (length (params m))"
    by (simp add: parameter_rows_def)
  show ?thesis
    using sp q z zt none len unfolding get_parameters_def by (intro conjI)
qed


lemma ex_wf:
  "\<forall>a \<in> param_addrs (kernel_obj lin_kernel) \<union> param_addrs (lik_obj gauss_lik)
       \<union> (case (None :: mean_fn option) of None \<Rightarrow> {} | Some f \<Rightarrow> param_addrs (mean_obj f)). a < length store1"
  by (simp add: lin_kernel_def gauss_lik_ok)

lemma ex_SparseHensman_init_None:
  "\<exists>m st'. (SparseHensman_init lin_kernel X01 y13 None gauss_lik 0 None SparseHensman_default_name
       other_dtype store1 :: unit error + sparse_hensman \<times> store) = Inr (m, st')"
proof -
  from ex_Model_init [OF gauss_lik_ok(1,2)] obtain m0 st1 where
    "(Model_init lin_kernel X01 y13 gauss_lik 0 None SparseHensman_default_name other_dtype store1
        :: unit error + model \<times> store) = Inr (m0, st1)"
    by blast
  then show ?thesis
    by (simp add: SparseHensman_init_def Let_def split: prod.splits del: register_parameters.simps)
qed

lemma ex_SparseHensman_init_Z:
  "\<exists>m st'. (SparseHensman_init lin_kernel X01 y13 (Some (ZTensor Z1)) gauss_lik 0 None
       SparseHensman_default_name other_dtype store1 :: unit error + sparse_hensman \<times> store) = Inr (m, st')"
proof -
  from ex_Model_init [OF gauss_lik_ok(1,2)] obtain m0 st1 where
    mi: "(Model_init lin_kernel X01 y13 gauss_lik 0 None SparseHensman_default_name other_dtype store1
        :: unit error + model \<times> store) = Inr (m0, st1)"
    by blast
  have d: "input_dims m0 = Suc 0" using Model_init_fields(3) [OF mi] by (simp add: ex_accept)
  have z: "(init_inducing_points (ZTensor Z1) (data_X m0) lin_kernel :: unit error + tensor) = Inr Z1"
    by (simp add: init_inducing_points_def lin_kernel_def Let_def)
  have c: "(check_input (Suc 0) Z1 None :: unit error + tensor \<times> tensor option) = Inr (Z1, None)"
    unfolding check_input_alt by (simp add: Z1_def promote_def ndim_def)
  show ?thesis
    unfolding SparseHensman_init_def mi
    by (simp add: z c d Let_def split: prod.splits del: register_parameters.simps)
qed

theorem SparseHensman_registers_Z_iff_sparse_witness:
  "(\<exists>m st'. (SparseHensman_init lin_kernel X01 y13 None gauss_lik 0 None SparseHensman_default_name
         other_dtype store1 :: unit error + sparse_hensman \<times> store) = Inr (m, st')
      \<and> \<not> is_sparse m \<and> Z_attr m \<notin> set (get_parameters (params m))
      \<and> Z_attr m \<notin> set (parameters st' (params m))
      \<and> q_mu m \<in> set (get_parameters (params m)) \<and> q_sqrt m \<in> set (get_parameters (params m))
      \<and> \<not> trainable (st' ! Z_attr m) \<and> pvalue (st' ! Z_attr m) = data_X m)
   \<and> (\<exists>m st'. (SparseHensman_init lin_kernel X01 y13 (Some (ZTensor Z1)) gauss_lik 0 None
         SparseHensman_default_name other_dtype store1 :: unit error + sparse_hensman \<times> store) = Inr (m, st')
      \<and> is_sparse m \<and> Z_attr m \<in> set (get_parameters (params m))
      \<and> q_mu m \<in> set (get_parameters (params m)) \<and> q_sqrt m \<in> set (get_parameters (params m)))"
proof
  from ex_SparseHensman_init_None obtain m st' where
    i: "(SparseHensman_init lin_kernel X01 y13 None gauss_lik 0 None SparseHensman_default_name
         other_dtype store1 :: unit error + sparse_hensman \<times> store) = Inr (m, st')" by blast
  note t = SparseHensman_registers_Z_iff_sparse [OF i ex_wf]
  from t have "\<not> is_sparse m \<and> Z_attr m \<notin> set (get_parameters (params m))
      \<and> Z_attr m \<notin> set (parameters st' (params m))
      \<and> q_mu m \<in> set (get_parameters (params m)) \<and> q_sqrt m \<in> set (get_parameters (params m))
      \<and> \<not> trainable (st' ! Z_attr m) \<and> pvalue (st' ! Z_attr m) = data_X m"
    by simp
  with i show "\<exists>m st'. (SparseHensman_init lin_kernel X01 y13 None gauss_lik 0 None SparseHensman_default_name
         other_dtype store1 :: unit error + sparse_hensman \<times> store) = Inr (m, st')
      \<and> \<not> is_sparse m \<and> Z_attr m \<notin> set (get_parameters (params m))
      \<and> Z_attr m \<notin> set (parameters st' (params m))
      \<and> q_mu m \<in> set (get_parameters (params m)) \<and> q_sqrt m \<in> set (get_parameters (params m))
      \<and> \<not> trainable (st' ! Z_attr m) \<and> pvalue (st' ! Z_attr m) = data_X m"
    by blast
next
  from ex_SparseHensman_init_Z obtain m st' where
    i: "(SparseHensman_init lin_kernel X01 y13 (Some (ZTensor Z1)) gauss_lik 0 None SparseHensman_default_name
         other_dtype store1 :: unit error + sparse_hensman \<times> store) = Inr (m, st')" by blast
  note t = SparseHensman_registers_Z_iff_sparse [OF i ex_wf]
  from t have "is_sparse m \<and> Z_attr m \<in> set (get_parameters (params m))
      \<and> q_mu m \<in> set (get_parameters (params m)) \<and> q_sqrt m \<in> set (get_parameters (params m))"
    by simp
  with i show "\<exists>m st'. (SparseHensman_init lin_kernel X01 y13 (Some (ZTensor Z1)) gauss_lik 0 None
         SparseHensman_default_name other_dtype store1 :: unit error + sparse_hensman \<times> store) = Inr (m, st')
      \<and> is_sparse m \<and> Z_attr m \<in> set (get_parameters (params m))
      \<and> q_mu m \<in> set (get_parameters (params m)) \<and> q_sqrt m \<in> set (get_parameters (params m))"
    by blast
qed

end
